theory Spec2Isabelle
  imports Main "HOL-Library.Multiset"
begin

section \<open>JavaScript values and errors\<close>

text \<open>
  The data model of \<^verbatim>\<open>src/data.ts\<close> is a graph of JavaScript objects that point at
  each other. An object is named by a reference (its identity); the value that a variable
  or a property holds is a \<open>val\<close>: a primitive, or an object tagged with the name of its
  constructor (what \<^verbatim>\<open>value.constructor.name\<close> reports). \<open>EnumObj c n\<close> is the
  tag value named \<open>n\<close> of the enumeration class \<open>c\<close> of \<^verbatim>\<open>types.ts\<close>.
  Strict equality \<^verbatim>\<open>===\<close> is equality of \<open>val\<close>.
\<close>

type_synonym ref = nat

datatype EnumClass = POS | PhraseTag | DependencyTag | RoleType | CoarseEntityType

fun EnumClass_name :: "EnumClass \<Rightarrow> string" where
  "EnumClass_name POS = ''POS''"
| "EnumClass_name PhraseTag = ''PhraseTag''"
| "EnumClass_name DependencyTag = ''DependencyTag''"
| "EnumClass_name RoleType = ''RoleType''"
| "EnumClass_name CoarseEntityType = ''CoarseEntityType''"

datatype val =
    Undefined
  | Null
  | Str string
  | Num int
  | Bool bool
  | MorphemeObj ref
  | WordObj ref
  | EntityObj ref
  | CoreferenceGroupObj ref
  | TreeObj ref
  | SyntaxTreeObj ref
  | DepEdgeObj ref
  | RoleEdgeObj ref
  | SentenceObj ref
  | EnumObj EnumClass string

text \<open>
  Every failure of the module is a JavaScript \<^verbatim>\<open>TypeError\<close>. The constructors keep
  apart the places that raise it:
  \<^item> \<open>TypeCheckError types t\<close>: \<^verbatim>\<open>typeCheck\<close> met the type \<open>t\<close>, not among \<open>types\<close>;
  \<^item> \<open>AssertError msg\<close>: a direct \<^verbatim>\<open>assert\<close> failed;
  \<^item> \<open>WriteOnceError property current new\<close>: the setter installed by
    \<^verbatim>\<open>writeonlyonce\<close> refused \<open>new\<close>; the message interpolates the property name,
    \<^verbatim>\<open>value.toString()\<close> and \<^verbatim>\<open>newValue.toString()\<close>;
  \<^item> \<open>ReplaceError property\<close>: the setter installed by \<^verbatim>\<open>replaceableifempty\<close>
    refused a new list;
  \<^item> \<open>NullAccessError\<close>: a property was read from \<^verbatim>\<open>undefined\<close> or \<^verbatim>\<open>null\<close>
    (raised by the JavaScript runtime itself).
  The messages of the source are Korean text; an assertion's message is given here by
  an English rendering.
\<close>

datatype error =
    TypeCheckError "string list" string
  | AssertError string
  | WriteOnceError string val val
  | ReplaceError string
  | NullAccessError

definition bind :: "error + 'a \<Rightarrow> ('a \<Rightarrow> error + 'b) \<Rightarrow> error + 'b" where
  "bind m f = (case m of Inl e \<Rightarrow> Inl e | Inr x \<Rightarrow> f x)"

section \<open>common.ts\<close>

definition isDefined :: "val \<Rightarrow> bool" where
  "isDefined v = (v \<noteq> Undefined \<and> v \<noteq> Null)"

definition getOrUndefined :: "val \<Rightarrow> val" where
  "getOrUndefined v = (if isDefined v then v else Undefined)"

definition assert :: "bool \<Rightarrow> string \<Rightarrow> error + unit" where
  "assert condition msg = (if \<not> condition then Inl (AssertError msg) else Inr ())"

text \<open>
  The type name \<^verbatim>\<open>typeCheck\<close> computes for a value: \<^verbatim>\<open>typeof value\<close>, replaced by
  \<^verbatim>\<open>value.constructor.name\<close> when it is \<^verbatim>\<open>'object'\<close>. \<^verbatim>\<open>typeof null\<close> is
  \<^verbatim>\<open>'object'\<close> and \<^verbatim>\<open>null.constructor\<close> raises.
\<close>

fun typeName :: "val \<Rightarrow> error + string" where
  "typeName Undefined = Inr ''undefined''"
| "typeName Null = Inl NullAccessError"
| "typeName (Str s) = Inr ''string''"
| "typeName (Num n) = Inr ''number''"
| "typeName (Bool b) = Inr ''boolean''"
| "typeName (MorphemeObj r) = Inr ''Morpheme''"
| "typeName (WordObj r) = Inr ''Word''"
| "typeName (EntityObj r) = Inr ''Entity''"
| "typeName (CoreferenceGroupObj r) = Inr ''CoreferenceGroup''"
| "typeName (TreeObj r) = Inr ''Tree''"
| "typeName (SyntaxTreeObj r) = Inr ''SyntaxTree''"
| "typeName (DepEdgeObj r) = Inr ''DepEdge''"
| "typeName (RoleEdgeObj r) = Inr ''RoleEdge''"
| "typeName (SentenceObj r) = Inr ''Sentence''"
| "typeName (EnumObj c n) = Inr (EnumClass_name c)"

fun typeNames :: "val list \<Rightarrow> error + string list" where
  "typeNames [] = Inr []"
| "typeNames (v # vs) =
     (case typeName v of
        Inl e \<Rightarrow> Inl e
      | Inr t \<Rightarrow> (case typeNames vs of Inl e \<Rightarrow> Inl e | Inr ts \<Rightarrow> Inr (t # ts)))"

text \<open>
  \<^verbatim>\<open>typeCheck(values, ...types)\<close> first maps every value to its type name, collects the
  names in a \<^verbatim>\<open>Set\<close> and asserts, in insertion order, that each is one of \<open>types\<close>.
  The first name of the set that fails is the first name of the list that fails, so the
  model searches the list. On an empty list nothing is asserted.
\<close>

definition typeCheck :: "val list \<Rightarrow> string list \<Rightarrow> error + unit" where
  "typeCheck values types =
     (case typeNames values of
        Inl e \<Rightarrow> Inl e
      | Inr ts \<Rightarrow>
          (case find (\<lambda>t. t \<notin> set types) ts of
             None \<Rightarrow> Inr ()
           | Some t \<Rightarrow> Inl (TypeCheckError types t)))"

section \<open>data.ts: write-once properties\<close>

text \<open>
  \<^verbatim>\<open>writeonlyonce(target, defValue, ...properties)\<close> installs, for each property name, an
  accessor over a hidden variable \<^verbatim>\<open>value\<close> that starts \<^verbatim>\<open>undefined\<close>. The model
  keeps the hidden variable as a field of the object (a cell) and gives the two accessors
  as functions of the cell.
\<close>

definition writeonlyonce_get :: "val \<Rightarrow> val \<Rightarrow> val" where
  "writeonlyonce_get defValue value = (if \<not> isDefined value then defValue else value)"

text \<open>
  The setter. When the cell is defined and \<open>newValue\<close> differs, the \<^verbatim>\<open>TypeError\<close>
  message is built from \<^verbatim>\<open>value.toString()\<close> and \<^verbatim>\<open>newValue.toString()\<close>; with
  \<open>newValue\<close> \<^verbatim>\<open>undefined\<close> or \<^verbatim>\<open>null\<close> that very call raises first.
\<close>

definition writeonlyonce_set :: "string \<Rightarrow> val \<Rightarrow> val \<Rightarrow> error + val" where
  "writeonlyonce_set property value newValue =
     (if value = newValue then Inr value
      else if isDefined value then
        (if isDefined newValue then Inl (WriteOnceError property value newValue)
         else Inl NullAccessError)
      else Inr newValue)"

text \<open>
  \<^verbatim>\<open>replaceableifempty\<close>: the hidden list starts empty and may be replaced while it is
  empty. The setter's first test, \<^verbatim>\<open>value === newValue\<close>, compares array identities;
  every caller in the module passes an array it has just built, so the test is false
  there and the model starts at the second test.
\<close>

definition replaceableifempty_set :: "string \<Rightarrow> 'a list \<Rightarrow> 'a list \<Rightarrow> error + 'a list" where
  "replaceableifempty_set property value newValue =
     (if length value > 0 then Inl (ReplaceError property) else Inr newValue)"

section \<open>data.ts: ImmutableArray\<close>

text \<open>
  An \<^verbatim>\<open>ImmutableArray\<close> wraps the frozen array \<^verbatim>\<open>_items\<close>; its search methods
  delegate to the array. Indices are JavaScript numbers, \<open>-1\<close> meaning "not found".
\<close>

fun Array_indexOf_from :: "int \<Rightarrow> 'a list \<Rightarrow> 'a \<Rightarrow> int" where
  "Array_indexOf_from i [] v = -1"
| "Array_indexOf_from i (x # xs) v = (if x = v then i else Array_indexOf_from (i + 1) xs v)"

definition Array_indexOf :: "'a list \<Rightarrow> 'a \<Rightarrow> int" where
  "Array_indexOf xs v = Array_indexOf_from 0 xs v"

text \<open>
  \<^verbatim>\<open>Array.prototype.findIndex\<close> calls the predicate on the elements in order and stops
  at the first that answers true. A predicate of this module can raise (it reads the tag
  of a morpheme), so the model's predicates return \<open>error + bool\<close>, and an element
  past the first hit is never asked.
\<close>

fun Array_findIndex_from :: "int \<Rightarrow> ('a \<Rightarrow> error + bool) \<Rightarrow> 'a list \<Rightarrow> error + int" where
  "Array_findIndex_from i p [] = Inr (-1)"
| "Array_findIndex_from i p (x # xs) =
     (case p x of
        Inl e \<Rightarrow> Inl e
      | Inr b \<Rightarrow> if b then Inr i else Array_findIndex_from (i + 1) p xs)"

definition Array_findIndex :: "('a \<Rightarrow> error + bool) \<Rightarrow> 'a list \<Rightarrow> error + int" where
  "Array_findIndex p xs = Array_findIndex_from 0 p xs"

text \<open>
  lodash's \<^verbatim>\<open>_.findLastIndex\<close> (\<^verbatim>\<open>baseFindIndex\<close> with \<^verbatim>\<open>fromRight\<close>) walks the
  array from its last index down and returns the first index whose element satisfies the
  predicate. The helper takes the elements in the order they are visited.
\<close>

fun lodash_baseFindIndex_right :: "int \<Rightarrow> ('a \<Rightarrow> error + bool) \<Rightarrow> 'a list \<Rightarrow> error + int" where
  "lodash_baseFindIndex_right i p [] = Inr (-1)"
| "lodash_baseFindIndex_right i p (x # xs) =
     (case p x of
        Inl e \<Rightarrow> Inl e
      | Inr b \<Rightarrow> if b then Inr i else lodash_baseFindIndex_right (i - 1) p xs)"

definition lodash_findLastIndex :: "'a list \<Rightarrow> ('a \<Rightarrow> error + bool) \<Rightarrow> error + int" where
  "lodash_findLastIndex xs p = lodash_baseFindIndex_right (int (length xs) - 1) p (rev xs)"

definition ImmutableArray_indexOf :: "'a list \<Rightarrow> 'a \<Rightarrow> int" where
  "ImmutableArray_indexOf items v = Array_indexOf items v"

text \<open>The source of \<^verbatim>\<open>lastIndexOf\<close> reads \<^verbatim>\<open>return this._items.indexOf(value)\<close>.\<close>

definition ImmutableArray_lastIndexOf :: "'a list \<Rightarrow> 'a \<Rightarrow> int" where
  "ImmutableArray_lastIndexOf items v = Array_indexOf items v"

definition ImmutableArray_findIndex :: "'a list \<Rightarrow> ('a \<Rightarrow> error + bool) \<Rightarrow> error + int" where
  "ImmutableArray_findIndex items predicate = Array_findIndex predicate items"

definition ImmutableArray_findLastIndex :: "'a list \<Rightarrow> ('a \<Rightarrow> error + bool) \<Rightarrow> error + int" where
  "ImmutableArray_findLastIndex items predicate = lodash_findLastIndex items predicate"

text \<open>
  Index access goes through the \<^verbatim>\<open>Proxy\<close> that the constructor returns: a numeric
  name \<open>n \<ge> 0\<close> reads \<^verbatim>\<open>_items[n]\<close>, a negative one \<^verbatim>\<open>_items[length + n]\<close>; outside
  the array the result is \<^verbatim>\<open>undefined\<close> (\<open>None\<close>).
\<close>

definition ImmutableArray_at :: "'a list \<Rightarrow> int \<Rightarrow> 'a option" where
  "ImmutableArray_at items n =
     (if n \<ge> 0 then (if nat n < length items then Some (items ! nat n) else None)
      else (let k = int (length items) + n
            in if k \<ge> 0 then Some (items ! nat k) else None))"

section \<open>data.ts: the objects and the heap\<close>

text \<open>
  The native (Java) morpheme a \<^verbatim>\<open>Morpheme\<close> may wrap, by the results of the getters
  the module calls on it: \<^verbatim>\<open>getSurface()\<close>, \<^verbatim>\<open>getTag().name()\<close> and
  \<^verbatim>\<open>getOriginalTag()\<close> in the reconstruction of a sentence, \<^verbatim>\<open>getWordSense()\<close> in the
  constructor.
\<close>

record JMorpheme =
  JMorpheme_getSurface :: val
  JMorpheme_getTag_name :: val
  JMorpheme_getOriginalTag :: val
  JMorpheme_getWordSense :: val

text \<open>
  One record per class, holding the instance's fields. A field installed by
  \<^verbatim>\<open>writeonlyonce\<close> holds the accessor's hidden variable. The \<^verbatim>\<open>Morpheme\<close>
  constructor installs the accessors \<^verbatim>\<open>'id'\<close>, \<^verbatim>\<open>'word'\<close> and \<^verbatim>\<open>'wordsense'\<close>
  (in lower case); \<^verbatim>\<open>wordSense\<close>, the property the class declares and the constructor
  and \<^verbatim>\<open>getWordSense()\<close> use, is a plain data property.
  \<open>_items\<close> of a container, checked by \<^verbatim>\<open>typeCheck\<close> at construction, is kept as the
  list of the references of its elements.
\<close>

record Morpheme =
  Morpheme_surface :: val
  Morpheme_tag :: val
  Morpheme_originalTag :: val
  Morpheme_reference :: "JMorpheme option"
  Morpheme_id :: val
  Morpheme_word :: val
  Morpheme_wordsense :: val
  Morpheme_wordSense :: val
  Morpheme_entities :: "ref list"

record Word =
  Word_surface :: val
  Word_items :: "ref list"
  Word_id :: val
  Word_phrase :: val
  Word_governorEdge :: val
  Word_dependentEdges :: "ref list"
  Word_argumentRoles :: "ref list"
  Word_predicateRoles :: "ref list"

record Entity =
  Entity_surface :: val
  Entity_label :: val
  Entity_fineLabel :: val
  Entity_originalLabel :: val
  Entity_items :: "ref list"
  Entity_corefGroup :: val

record CoreferenceGroup =
  CoreferenceGroup_items :: "ref list"

record Tree =
  Tree_label :: val
  Tree_terminal :: val
  Tree_items :: "ref list"
  Tree_parent :: val
  Tree_originalLabel :: val

record DepEdge =
  DepEdge_src :: val
  DepEdge_dest :: val
  DepEdge_label :: val
  DepEdge_type :: val
  DepEdge_originalLabel :: val

record RoleEdge =
  RoleEdge_src :: val
  RoleEdge_dest :: val
  RoleEdge_label :: val
  RoleEdge_modifiers :: "ref list"
  RoleEdge_originalLabel :: val

record Sentence =
  Sentence_items :: "ref list"
  Sentence_syntaxTree :: val
  Sentence_dependencies :: "ref list"
  Sentence_roles :: "ref list"
  Sentence_entities :: "ref list"
  Sentence_corefGroups :: "ref list"

text \<open>
  The heap maps the references of each class to its instances; \<open>nextRef\<close> is the
  reference the next \<^verbatim>\<open>new\<close> receives, so that every object has an identity of its
  own. A raised error abandons the operation: the model returns the heap only with a
  result.
\<close>

record heap =
  nextRef :: ref
  Morphemes :: "ref \<Rightarrow> Morpheme"
  Words :: "ref \<Rightarrow> Word"
  Entities :: "ref \<Rightarrow> Entity"
  CoreferenceGroups :: "ref \<Rightarrow> CoreferenceGroup"
  Trees :: "ref \<Rightarrow> Tree"
  DepEdges :: "ref \<Rightarrow> DepEdge"
  RoleEdges :: "ref \<Rightarrow> RoleEdge"
  Sentences :: "ref \<Rightarrow> Sentence"

text \<open>The reference of an object value; the elements a checked array holds.\<close>

fun refOf :: "val \<Rightarrow> ref option" where
  "refOf (MorphemeObj r) = Some r"
| "refOf (WordObj r) = Some r"
| "refOf (EntityObj r) = Some r"
| "refOf (CoreferenceGroupObj r) = Some r"
| "refOf (TreeObj r) = Some r"
| "refOf (SyntaxTreeObj r) = Some r"
| "refOf (DepEdgeObj r) = Some r"
| "refOf (RoleEdgeObj r) = Some r"
| "refOf (SentenceObj r) = Some r"
| "refOf v = None"

definition refsOf :: "val list \<Rightarrow> ref list" where
  "refsOf vs = List.map_filter refOf vs"

subsection \<open>Accessors of the write-once properties\<close>

definition Morpheme_get_id :: "heap \<Rightarrow> ref \<Rightarrow> val" where
  "Morpheme_get_id h m = writeonlyonce_get (Num (-1)) (Morpheme_id (Morphemes h m))"

definition Morpheme_set_id :: "heap \<Rightarrow> ref \<Rightarrow> val \<Rightarrow> error + heap" where
  "Morpheme_set_id h m newValue =
     bind (writeonlyonce_set ''id'' (Morpheme_id (Morphemes h m)) newValue)
       (\<lambda>c. Inr (h\<lparr>Morphemes := (Morphemes h)(m := (Morphemes h m)\<lparr>Morpheme_id := c\<rparr>)\<rparr>))"

definition Morpheme_get_word :: "heap \<Rightarrow> ref \<Rightarrow> val" where
  "Morpheme_get_word h m = writeonlyonce_get Undefined (Morpheme_word (Morphemes h m))"

definition Morpheme_set_word :: "heap \<Rightarrow> ref \<Rightarrow> val \<Rightarrow> error + heap" where
  "Morpheme_set_word h m newValue =
     bind (writeonlyonce_set ''word'' (Morpheme_word (Morphemes h m)) newValue)
       (\<lambda>c. Inr (h\<lparr>Morphemes := (Morphemes h)(m := (Morphemes h m)\<lparr>Morpheme_word := c\<rparr>)\<rparr>))"

text \<open>\<^verbatim>\<open>morpheme.wordSense = v\<close> and \<^verbatim>\<open>morpheme.wordSense\<close>: a plain property.\<close>

definition Morpheme_get_wordSense :: "heap \<Rightarrow> ref \<Rightarrow> val" where
  "Morpheme_get_wordSense h m = Morpheme_wordSense (Morphemes h m)"

definition Morpheme_set_wordSense :: "heap \<Rightarrow> ref \<Rightarrow> val \<Rightarrow> error + heap" where
  "Morpheme_set_wordSense h m newValue =
     Inr (h\<lparr>Morphemes := (Morphemes h)(m := (Morphemes h m)\<lparr>Morpheme_wordSense := newValue\<rparr>)\<rparr>)"


definition Word_set_id :: "heap \<Rightarrow> ref \<Rightarrow> val \<Rightarrow> error + heap" where
  "Word_set_id h w newValue =
     bind (writeonlyonce_set ''id'' (Word_id (Words h w)) newValue)
       (\<lambda>c. Inr (h\<lparr>Words := (Words h)(w := (Words h w)\<lparr>Word_id := c\<rparr>)\<rparr>))"


definition Word_set_phrase :: "heap \<Rightarrow> ref \<Rightarrow> val \<Rightarrow> error + heap" where
  "Word_set_phrase h w newValue =
     bind (writeonlyonce_set ''phrase'' (Word_phrase (Words h w)) newValue)
       (\<lambda>c. Inr (h\<lparr>Words := (Words h)(w := (Words h w)\<lparr>Word_phrase := c\<rparr>)\<rparr>))"

definition Word_get_governorEdge :: "heap \<Rightarrow> ref \<Rightarrow> val" where
  "Word_get_governorEdge h w = writeonlyonce_get Undefined (Word_governorEdge (Words h w))"

definition Word_set_governorEdge :: "heap \<Rightarrow> ref \<Rightarrow> val \<Rightarrow> error + heap" where
  "Word_set_governorEdge h w newValue =
     bind (writeonlyonce_set ''governorEdge'' (Word_governorEdge (Words h w)) newValue)
       (\<lambda>c. Inr (h\<lparr>Words := (Words h)(w := (Words h w)\<lparr>Word_governorEdge := c\<rparr>)\<rparr>))"


definition Entity_set_corefGroup :: "heap \<Rightarrow> ref \<Rightarrow> val \<Rightarrow> error + heap" where
  "Entity_set_corefGroup h e newValue =
     bind (writeonlyonce_set ''corefGroup'' (Entity_corefGroup (Entities h e)) newValue)
       (\<lambda>c. Inr (h\<lparr>Entities := (Entities h)(e := (Entities h e)\<lparr>Entity_corefGroup := c\<rparr>)\<rparr>))"


definition Tree_set_parent :: "heap \<Rightarrow> ref \<Rightarrow> val \<Rightarrow> error + heap" where
  "Tree_set_parent h t newValue =
     bind (writeonlyonce_set ''parent'' (Tree_parent (Trees h t)) newValue)
       (\<lambda>c. Inr (h\<lparr>Trees := (Trees h)(t := (Trees h t)\<lparr>Tree_parent := c\<rparr>)\<rparr>))"


definition Sentence_set_syntaxTree :: "heap \<Rightarrow> ref \<Rightarrow> val \<Rightarrow> error + heap" where
  "Sentence_set_syntaxTree h s newValue =
     bind (writeonlyonce_set ''syntaxTree'' (Sentence_syntaxTree (Sentences h s)) newValue)
       (\<lambda>c. Inr (h\<lparr>Sentences := (Sentences h)(s := (Sentences h s)\<lparr>Sentence_syntaxTree := c\<rparr>)\<rparr>))"

section \<open>data.ts: Morpheme and Word\<close>

text \<open>
  The name a tag argument is stored under:
  \<^verbatim>\<open>(value.tag instanceof POS) ? value.tag.tagname : value.tag\<close>.
\<close>

definition tagnameOf :: "EnumClass \<Rightarrow> val \<Rightarrow> val" where
  "tagnameOf cls v = (case v of EnumObj c n \<Rightarrow> if c = cls then Str n else v | _ \<Rightarrow> v)"

text \<open>
  \<^verbatim>\<open>new Morpheme({surface, tag, originalTag, reference})\<close>. The constructor writes
  \<^verbatim>\<open>this.wordSense\<close> when a native reference is given.
\<close>

definition Morpheme_new ::
  "heap \<Rightarrow> val \<Rightarrow> val \<Rightarrow> val \<Rightarrow> JMorpheme option \<Rightarrow> error + (ref \<times> heap)" where
  "Morpheme_new h surface tag originalTag reference =
     bind (typeCheck [surface] [''string'']) (\<lambda>_.
     bind (typeCheck [tag] [''string'', ''POS'']) (\<lambda>_.
     bind (typeCheck [originalTag] [''undefined'', ''string'']) (\<lambda>_.
       let this = nextRef h;
           obj = \<lparr> Morpheme_surface = surface,
                   Morpheme_tag = tagnameOf POS tag,
                   Morpheme_originalTag = originalTag,
                   Morpheme_reference = reference,
                   Morpheme_id = Undefined,
                   Morpheme_word = Undefined,
                   Morpheme_wordsense = Undefined,
                   Morpheme_wordSense = Undefined,
                   Morpheme_entities = [] \<rparr>;
           h1 = h\<lparr>nextRef := Suc this, Morphemes := (Morphemes h)(this := obj)\<rparr>
       in (case reference of
             None \<Rightarrow> Inr (this, h1)
           | Some j \<Rightarrow>
               bind (Morpheme_set_wordSense h1 this (getOrUndefined (JMorpheme_getWordSense j)))
                 (\<lambda>h2. Inr (this, h2))))))"

text \<open>
  The loop of the \<^verbatim>\<open>Word\<close> constructor:
  \<^verbatim>\<open>for (const [i, morph] of this.entries()) { morph.word = this; morph.id = i; }\<close>
\<close>

fun Word_link :: "heap \<Rightarrow> ref \<Rightarrow> int \<Rightarrow> ref list \<Rightarrow> error + heap" where
  "Word_link h this i [] = Inr h"
| "Word_link h this i (morph # ms) =
     (case Morpheme_set_word h morph (WordObj this) of
        Inl e \<Rightarrow> Inl e
      | Inr h1 \<Rightarrow>
          (case Morpheme_set_id h1 morph (Num i) of
             Inl e \<Rightarrow> Inl e
           | Inr h2 \<Rightarrow> Word_link h2 this (i + 1) ms))"

text \<open>
  \<^verbatim>\<open>new Word({surface, morphemes, reference})\<close>: the \<^verbatim>\<open>ImmutableArray\<close> constructor
  checks the items, then the surface is checked, the fields are created and the loop
  runs. (\<^verbatim>\<open>this.reference = value.reference\<close> sets the native handle of a new object
  and cannot raise; the handle is not kept in the model.)
\<close>

definition Word_new :: "heap \<Rightarrow> val \<Rightarrow> val list \<Rightarrow> error + (ref \<times> heap)" where
  "Word_new h surface morphemes =
     bind (typeCheck morphemes [''Morpheme'']) (\<lambda>_.
     bind (typeCheck [surface] [''string'']) (\<lambda>_.
       let this = nextRef h;
           obj = \<lparr> Word_surface = surface,
                   Word_items = refsOf morphemes,
                   Word_id = Undefined,
                   Word_phrase = Undefined,
                   Word_governorEdge = Undefined,
                   Word_dependentEdges = [],
                   Word_argumentRoles = [],
                   Word_predicateRoles = [] \<rparr>;
           h1 = h\<lparr>nextRef := Suc this, Words := (Words h)(this := obj)\<rparr>
       in bind (Word_link h1 this 0 (refsOf morphemes)) (\<lambda>h2. Inr (this, h2))))"

text \<open>
  The getter \<^verbatim>\<open>Word.entities\<close>: the entities of the morphemes in order, an entity
  pushed unless \<^verbatim>\<open>result.includes(entity)\<close> (the same object) already.
\<close>

definition Word_entities_push :: "ref list \<Rightarrow> ref \<Rightarrow> ref list" where
  "Word_entities_push result entity = (if entity \<in> set result then result else result @ [entity])"

definition Word_entities :: "heap \<Rightarrow> ref \<Rightarrow> ref list" where
  "Word_entities h w =
     foldl (\<lambda>result morpheme. foldl Word_entities_push result (Morpheme_entities (Morphemes h morpheme)))
       [] (Word_items (Words h w))"

section \<open>data.ts: Entity and CoreferenceGroup\<close>

definition Morpheme_entities_push :: "ref \<Rightarrow> heap \<Rightarrow> ref \<Rightarrow> heap" where
  "Morpheme_entities_push this h morph =
     h\<lparr>Morphemes := (Morphemes h)(morph := (Morphemes h morph)
          \<lparr>Morpheme_entities := Morpheme_entities (Morphemes h morph) @ [this]\<rparr>)\<rparr>"

text \<open>
  \<^verbatim>\<open>new Entity({surface, label, fineLabel, morphemes, originalLabel})\<close>. After the
  checks the constructor ends with
  \<^verbatim>\<open>for (const morph of this) { morph.entities.push(this); }\<close>
\<close>

definition Entity_new ::
  "heap \<Rightarrow> val \<Rightarrow> val \<Rightarrow> val \<Rightarrow> val list \<Rightarrow> val \<Rightarrow> error + (ref \<times> heap)" where
  "Entity_new h surface label fineLabel morphemes originalLabel =
     bind (typeCheck morphemes [''Morpheme'']) (\<lambda>_.
     bind (typeCheck [surface, fineLabel] [''string'']) (\<lambda>_.
     bind (typeCheck [label] [''string'', ''CoarseEntityType'']) (\<lambda>_.
     bind (typeCheck [originalLabel] [''undefined'', ''string'']) (\<lambda>_.
       let this = nextRef h;
           obj = \<lparr> Entity_surface = surface,
                   Entity_label = tagnameOf CoarseEntityType label,
                   Entity_fineLabel = fineLabel,
                   Entity_originalLabel = originalLabel,
                   Entity_items = refsOf morphemes,
                   Entity_corefGroup = Undefined \<rparr>;
           h1 = h\<lparr>nextRef := Suc this, Entities := (Entities h)(this := obj)\<rparr>
       in Inr (this, foldl (Morpheme_entities_push this) h1 (refsOf morphemes))))))"

text \<open>
  \<^verbatim>\<open>Morpheme.equals\<close>, \<^verbatim>\<open>ImmutableArray.equals\<close> (same length, then the elements
  pairwise) and \<^verbatim>\<open>Entity.equals\<close>.
\<close>

definition Morpheme_equals :: "heap \<Rightarrow> ref \<Rightarrow> ref \<Rightarrow> bool" where
  "Morpheme_equals h this other =
     (Morpheme_surface (Morphemes h this) = Morpheme_surface (Morphemes h other) \<and>
      Morpheme_tag (Morphemes h this) = Morpheme_tag (Morphemes h other))"

definition ImmutableArray_equals :: "('a \<Rightarrow> 'a \<Rightarrow> bool) \<Rightarrow> 'a list \<Rightarrow> 'a list \<Rightarrow> bool" where
  "ImmutableArray_equals eq items other = (length other = length items \<and> list_all2 eq items other)"

definition Entity_equals :: "heap \<Rightarrow> ref \<Rightarrow> ref \<Rightarrow> bool" where
  "Entity_equals h this other =
     (Entity_label (Entities h this) = Entity_label (Entities h other) \<and>
      Entity_fineLabel (Entities h this) = Entity_fineLabel (Entities h other) \<and>
      ImmutableArray_equals (Morpheme_equals h)
        (Entity_items (Entities h this)) (Entity_items (Entities h other)))"

text \<open>
  The loop of the \<^verbatim>\<open>CoreferenceGroup\<close> constructor:
  \<^verbatim>\<open>for (const entity of this) { entity.corefGroup = this; }\<close>
\<close>

fun CoreferenceGroup_link :: "heap \<Rightarrow> ref \<Rightarrow> ref list \<Rightarrow> error + heap" where
  "CoreferenceGroup_link h this [] = Inr h"
| "CoreferenceGroup_link h this (entity # es) =
     (case Entity_set_corefGroup h entity (CoreferenceGroupObj this) of
        Inl e \<Rightarrow> Inl e
      | Inr h1 \<Rightarrow> CoreferenceGroup_link h1 this es)"

definition CoreferenceGroup_new :: "heap \<Rightarrow> val list \<Rightarrow> error + (ref \<times> heap)" where
  "CoreferenceGroup_new h entities =
     bind (typeCheck entities [''Entity'']) (\<lambda>_.
       let this = nextRef h;
           h1 = h\<lparr>nextRef := Suc this,
                  CoreferenceGroups := (CoreferenceGroups h)
                    (this := \<lparr> CoreferenceGroup_items = refsOf entities \<rparr>)\<rparr>
       in bind (CoreferenceGroup_link h1 this (refsOf entities)) (\<lambda>h2. Inr (this, h2)))"

section \<open>data.ts: Tree and SyntaxTree\<close>

text \<open>
  The \<^verbatim>\<open>Tree\<close> constructor passes \<^verbatim>\<open>value.children\<close> to \<^verbatim>\<open>ImmutableArray\<close> as it
  is; when the caller left it out, \<^verbatim>\<open>typeCheck\<close> calls \<^verbatim>\<open>map\<close> on \<^verbatim>\<open>undefined\<close>
  (\<open>None\<close> here), which raises.
\<close>

definition Tree_new :: "heap \<Rightarrow> val \<Rightarrow> val \<Rightarrow> val list option \<Rightarrow> error + (ref \<times> heap)" where
  "Tree_new h label terminal children =
     bind (case children of
             None \<Rightarrow> Inl NullAccessError
           | Some cs \<Rightarrow> bind (typeCheck cs [''SyntaxTree'', ''Tree'']) (\<lambda>_. Inr cs)) (\<lambda>cs.
     bind (typeCheck [label] [''string'']) (\<lambda>_.
     bind (typeCheck [terminal] [''undefined'', ''Word'']) (\<lambda>_.
       let this = nextRef h;
           obj = \<lparr> Tree_label = label,
                   Tree_terminal = terminal,
                   Tree_items = refsOf cs,
                   Tree_parent = Undefined,
                   Tree_originalLabel = Undefined \<rparr>
       in Inr (this, h\<lparr>nextRef := Suc this, Trees := (Trees h)(this := obj)\<rparr>))))"

text \<open>\<^verbatim>\<open>for (const child of this) { child.parent = this; }\<close>\<close>

fun SyntaxTree_link :: "heap \<Rightarrow> ref \<Rightarrow> ref list \<Rightarrow> error + heap" where
  "SyntaxTree_link h this [] = Inr h"
| "SyntaxTree_link h this (child # cs) =
     (case Tree_set_parent h child (SyntaxTreeObj this) of
        Inl e \<Rightarrow> Inl e
      | Inr h1 \<Rightarrow> SyntaxTree_link h1 this cs)"

text \<open>
  \<^verbatim>\<open>new SyntaxTree({label, terminal, children, originalLabel})\<close>: the \<^verbatim>\<open>Tree\<close>
  constructor first, then the checks of the subclass, then the back-references. The
  terminal passed the check of \<^verbatim>\<open>Tree\<close>, so it is a Word when it is not
  \<^verbatim>\<open>undefined\<close>.
\<close>

definition SyntaxTree_new ::
  "heap \<Rightarrow> val \<Rightarrow> val \<Rightarrow> val list option \<Rightarrow> val \<Rightarrow> error + (ref \<times> heap)" where
  "SyntaxTree_new h label terminal children originalLabel =
     bind (Tree_new h label terminal children) (\<lambda>(this, h1).
     bind (typeCheck [label] [''string'', ''PhraseTag'']) (\<lambda>_.
     bind (typeCheck [originalLabel] [''undefined'', ''string'']) (\<lambda>_.
       let h2 = h1\<lparr>Trees := (Trees h1)(this := (Trees h1 this)\<lparr>Tree_originalLabel := originalLabel\<rparr>)\<rparr>
       in bind (case terminal of
                  WordObj term \<Rightarrow> Word_set_phrase h2 term (SyntaxTreeObj this)
                | _ \<Rightarrow> Inr h2) (\<lambda>h3.
          bind (SyntaxTree_link h3 this (Tree_items (Trees h3 this))) (\<lambda>h4.
            Inr (this, h4))))))"

section \<open>data.ts: DAGEdge, DepEdge and RoleEdge\<close>

text \<open>The checks of the \<^verbatim>\<open>DAGEdge\<close> constructor on the \<^verbatim>\<open>value\<close> it receives.\<close>

definition DAGEdge_new :: "val \<Rightarrow> val \<Rightarrow> val \<Rightarrow> error + unit" where
  "DAGEdge_new src dest label =
     bind (typeCheck [src] [''undefined'', ''Word'']) (\<lambda>_.
     bind (typeCheck [dest] [''Word'']) (\<lambda>_.
          typeCheck [label] [''undefined'', ''string'']))"

text \<open>
  \<^verbatim>\<open>new DepEdge(value)\<close>. The constructor calls \<^verbatim>\<open>super(value)\<close> first, so
  \<^verbatim>\<open>DAGEdge\<close> reads \<^verbatim>\<open>value.src\<close>, \<^verbatim>\<open>value.dest\<close> and \<^verbatim>\<open>value.label\<close> as the
  caller passed them; the assignments \<^verbatim>\<open>value.src = value.governor\<close>,
  \<^verbatim>\<open>value.dest = value.dependent\<close> and \<^verbatim>\<open>value.label = value.depType\<close> that follow
  change only the argument object. \<open>dest\<close> passed the check of \<^verbatim>\<open>DAGEdge\<close>, so it is
  a Word; \<open>src\<close> is a Word or \<^verbatim>\<open>undefined\<close>.
\<close>

definition DepEdge_new ::
  "heap \<Rightarrow> val \<Rightarrow> val \<Rightarrow> val \<Rightarrow> val \<Rightarrow> val \<Rightarrow> val \<Rightarrow> val \<Rightarrow> val \<Rightarrow> error + (ref \<times> heap)" where
  "DepEdge_new h governor dependent type depType originalLabel src dest label =
     bind (DAGEdge_new src dest label) (\<lambda>_.
     bind (typeCheck [type] [''string'', ''PhraseTag'']) (\<lambda>_.
     bind (typeCheck [depType] [''undefined'', ''string'', ''DependencyTag'']) (\<lambda>_.
     bind (typeCheck [originalLabel] [''undefined'', ''string'']) (\<lambda>_.
       let this = nextRef h;
           obj = \<lparr> DepEdge_src = src,
                   DepEdge_dest = dest,
                   DepEdge_label = label,
                   DepEdge_type = tagnameOf PhraseTag type,
                   DepEdge_originalLabel = originalLabel \<rparr>;
           h1 = h\<lparr>nextRef := Suc this, DepEdges := (DepEdges h)(this := obj)\<rparr>
       in bind (case dest of
                  WordObj d \<Rightarrow> Word_set_governorEdge h1 d (DepEdgeObj this)
                | _ \<Rightarrow> Inr h1) (\<lambda>h2.
            Inr (this,
              (case src of
                 WordObj s \<Rightarrow>
                   h2\<lparr>Words := (Words h2)(s := (Words h2 s)
                        \<lparr>Word_dependentEdges := Word_dependentEdges (Words h2 s) @ [this]\<rparr>)\<rparr>
               | _ \<Rightarrow> h2)))))))"

text \<open>
  \<^verbatim>\<open>new RoleEdge({predicate, argument, label, modifiers, originalLabel})\<close>. The checks
  come before \<^verbatim>\<open>super\<close>; among them
  \<^verbatim>\<open>assert(isDefined(value.predicate), ...)\<close>. \<^verbatim>\<open>value.modifiers || []\<close> replaces a
  missing list (\<open>None\<close>) by the empty one.
\<close>

definition RoleEdge_new ::
  "heap \<Rightarrow> val \<Rightarrow> val \<Rightarrow> val \<Rightarrow> val list option \<Rightarrow> val \<Rightarrow> error + (ref \<times> heap)" where
  "RoleEdge_new h predicate argument label modifiers originalLabel =
     bind (typeCheck [label] [''string'', ''RoleType'']) (\<lambda>_.
     bind (typeCheck [originalLabel] [''undefined'', ''string'']) (\<lambda>_.
       let mods = (case modifiers of None \<Rightarrow> [] | Some ms \<Rightarrow> ms)
       in bind (typeCheck mods [''Word'']) (\<lambda>_.
          bind (assert (isDefined predicate) ''[value.predicate] must not be undefined'') (\<lambda>_.
          bind (DAGEdge_new predicate argument (tagnameOf RoleType label)) (\<lambda>_.
            let this = nextRef h;
                obj = \<lparr> RoleEdge_src = predicate,
                        RoleEdge_dest = argument,
                        RoleEdge_label = tagnameOf RoleType label,
                        RoleEdge_modifiers = refsOf mods,
                        RoleEdge_originalLabel = originalLabel \<rparr>;
                h1 = h\<lparr>nextRef := Suc this, RoleEdges := (RoleEdges h)(this := obj)\<rparr>;
                h2 = (case argument of
                        WordObj d \<Rightarrow>
                          h1\<lparr>Words := (Words h1)(d := (Words h1 d)
                               \<lparr>Word_predicateRoles := Word_predicateRoles (Words h1 d) @ [this]\<rparr>)\<rparr>
                      | _ \<Rightarrow> h1);
                h3 = (case predicate of
                        WordObj s \<Rightarrow>
                          h2\<lparr>Words := (Words h2)(s := (Words h2 s)
                               \<lparr>Word_argumentRoles := Word_argumentRoles (Words h2 s) @ [this]\<rparr>)\<rparr>
                      | _ \<Rightarrow> h2)
            in Inr (this, h3))))))"

section \<open>data.ts: Tree.getTerminals\<close>

text \<open>
  \<^verbatim>\<open>getTerminals\<close> reads, from a node down, only \<^verbatim>\<open>_items\<close> and \<^verbatim>\<open>terminal\<close>, both
  fixed by the constructor (\<^verbatim>\<open>_items\<close> is frozen and holds nodes built before their
  parent). What it walks is therefore a finite tree, given here as a datatype: a node
  with its label, its terminal Word (\<open>None\<close> for \<^verbatim>\<open>undefined\<close>) and its children. The
  parameter \<open>wid\<close> is the \<^verbatim>\<open>id\<close> a Word reports.
\<close>

datatype TreeNode =
  TreeNode (TreeNode_label: val) (TreeNode_terminal: "ref option") (TreeNode_children: "TreeNode list")

text \<open>
  \<^verbatim>\<open>leaves.sort((x, y) => x.id - y.id)\<close>: JavaScript's sort is stable, and with this
  comparator on integer ids it returns the stable ascending arrangement, which is what
  \<^const>\<open>sort_key\<close> computes.
\<close>

fun Tree_getTerminals :: "(ref \<Rightarrow> int) \<Rightarrow> TreeNode \<Rightarrow> ref list" where
  "Tree_getTerminals wid (TreeNode label terminal children) =
     (let leaves = foldl (\<lambda>acc child. acc @ Tree_getTerminals wid child) [] children;
          leaves1 = (case terminal of None \<Rightarrow> leaves | Some w \<Rightarrow> leaves @ [w])
      in sort_key wid leaves1)"

text \<open>
  The words of the specification: the terminal Words reachable from a node are its own
  terminal plus those of all its descendants; their number is the number of nodes that
  carry a terminal.
\<close>

fun reachableTerminals :: "TreeNode \<Rightarrow> ref list" where
  "reachableTerminals (TreeNode label terminal children) =
     (case terminal of None \<Rightarrow> [] | Some w \<Rightarrow> [w]) @ concat (map reachableTerminals children)"

fun countTerminals :: "TreeNode \<Rightarrow> nat" where
  "countTerminals (TreeNode label terminal children) =
     (case terminal of None \<Rightarrow> 0 | Some w \<Rightarrow> 1) + sum_list (map countTerminals children)"

section \<open>types.ts: the part-of-speech catalog\<close>

text \<open>
  \<^verbatim>\<open>POS\<close> wraps the values of a Java enumeration: \<^verbatim>\<open>POS.withName(name)\<close> looks the
  name up among them (\<^verbatim>\<open>undefined\<close> for an unknown name), and \<^verbatim>\<open>isNoun()\<close> and
  \<^verbatim>\<open>startsWith(tag)\<close> forward to the Java value. The Java side is not part of the
  repository, so the catalog is a parameter: the names of the values and the two
  predicates, a value being named by its \<^verbatim>\<open>tagname\<close>.
\<close>

record JavaPOS =
  JavaPOS_values :: "string list"
  JavaPOS_isNoun :: "string \<Rightarrow> bool"
  JavaPOS_startsWith :: "string \<Rightarrow> string \<Rightarrow> bool"

definition POS_withName :: "JavaPOS \<Rightarrow> val \<Rightarrow> string option" where
  "POS_withName J name =
     (case name of Str n \<Rightarrow> if n \<in> set (JavaPOS_values J) then Some n else None | _ \<Rightarrow> None)"

text \<open>The getter \<^verbatim>\<open>Morpheme.tag\<close> and the queries built on it.\<close>

definition Morpheme_tag_get :: "JavaPOS \<Rightarrow> heap \<Rightarrow> ref \<Rightarrow> string option" where
  "Morpheme_tag_get J h m = POS_withName J (Morpheme_tag (Morphemes h m))"

definition Morpheme_isNoun :: "JavaPOS \<Rightarrow> heap \<Rightarrow> ref \<Rightarrow> error + bool" where
  "Morpheme_isNoun J h m =
     (case Morpheme_tag_get J h m of
        None \<Rightarrow> Inl NullAccessError
      | Some t \<Rightarrow> Inr (JavaPOS_isNoun J t))"

text \<open>\<^verbatim>\<open>hasTagOneOf(...tags)\<close> is \<^verbatim>\<open>tags.some((t) => this.tag.startsWith(t))\<close>.\<close>

fun Morpheme_hasTagOneOf :: "JavaPOS \<Rightarrow> heap \<Rightarrow> ref \<Rightarrow> string list \<Rightarrow> error + bool" where
  "Morpheme_hasTagOneOf J h m [] = Inr False"
| "Morpheme_hasTagOneOf J h m (t # ts) =
     (case Morpheme_tag_get J h m of
        None \<Rightarrow> Inl NullAccessError
      | Some p \<Rightarrow> if JavaPOS_startsWith J p t then Inr True else Morpheme_hasTagOneOf J h m ts)"

section \<open>data.ts: Sentence.nouns\<close>

definition nouns_inclusion :: "JavaPOS \<Rightarrow> heap \<Rightarrow> ref \<Rightarrow> error + bool" where
  "nouns_inclusion J h m =
     bind (Morpheme_isNoun J h m) (\<lambda>b.
       if b then Inr True else Morpheme_hasTagOneOf J h m [''ETN'', ''XSN''])"

definition nouns_exclusion :: "JavaPOS \<Rightarrow> heap \<Rightarrow> ref \<Rightarrow> error + bool" where
  "nouns_exclusion J h m = Morpheme_hasTagOneOf J h m [''XSV'', ''XSA'', ''XSM'']"

text \<open>The loop of the getter over the words of the sentence, \<open>result\<close> in order.\<close>

fun Sentence_nouns_loop :: "JavaPOS \<Rightarrow> heap \<Rightarrow> ref list \<Rightarrow> error + ref list" where
  "Sentence_nouns_loop J h [] = Inr []"
| "Sentence_nouns_loop J h (word # ws) =
     (case ImmutableArray_findIndex (Word_items (Words h word)) (nouns_inclusion J h) of
        Inl e \<Rightarrow> Inl e
      | Inr inclusion \<Rightarrow>
          (case ImmutableArray_findLastIndex (Word_items (Words h word)) (nouns_exclusion J h) of
             Inl e \<Rightarrow> Inl e
           | Inr exclusion \<Rightarrow>
               (case Sentence_nouns_loop J h ws of
                  Inl e \<Rightarrow> Inl e
                | Inr result \<Rightarrow>
                    Inr (if inclusion \<noteq> -1 \<and> inclusion > exclusion then word # result
                         else result))))"

definition Sentence_nouns :: "JavaPOS \<Rightarrow> heap \<Rightarrow> ref \<Rightarrow> error + ref list" where
  "Sentence_nouns J h s = Sentence_nouns_loop J h (Sentence_items (Sentences h s))"

text \<open>
  The rule in the words of the specification, on the tags \<open>ts\<close> of a word's morphemes
  in order: some morpheme is noun-category or carries a tag prefixed \<^verbatim>\<open>ETN\<close> or
  \<^verbatim>\<open>XSN\<close>, and the earliest such index is greater than the index of every morpheme
  whose tag is prefixed \<^verbatim>\<open>XSV\<close>, \<^verbatim>\<open>XSA\<close> or \<^verbatim>\<open>XSM\<close>.
\<close>

definition noun_inclusion_tag :: "JavaPOS \<Rightarrow> string \<Rightarrow> bool" where
  "noun_inclusion_tag J t =
     (JavaPOS_isNoun J t \<or> JavaPOS_startsWith J t ''ETN'' \<or> JavaPOS_startsWith J t ''XSN'')"

definition noun_exclusion_tag :: "JavaPOS \<Rightarrow> string \<Rightarrow> bool" where
  "noun_exclusion_tag J t =
     (JavaPOS_startsWith J t ''XSV'' \<or> JavaPOS_startsWith J t ''XSA'' \<or> JavaPOS_startsWith J t ''XSM'')"

definition noun_rule :: "JavaPOS \<Rightarrow> string list \<Rightarrow> bool" where
  "noun_rule J ts =
     (\<exists>i < length ts. noun_inclusion_tag J (ts ! i) \<and>
        (\<forall>k < i. \<not> noun_inclusion_tag J (ts ! k)) \<and>
        (\<forall>j < length ts. noun_exclusion_tag J (ts ! j) \<longrightarrow> j < i))"

text \<open>The tags of the morphemes of a word, in order.\<close>

definition Word_tags :: "JavaPOS \<Rightarrow> heap \<Rightarrow> ref \<Rightarrow> string list" where
  "Word_tags J h w = List.map_filter (Morpheme_tag_get J h) (Word_items (Words h w))"

section \<open>data.ts: reconstruction of a Sentence from the analyzer's result\<close>

text \<open>
  The native (Java) objects of an analysed sentence, as far as the reconstruction reads
  them. A word or morpheme is referred to by its position ids (\<^verbatim>\<open>getId()\<close>, and for
  a morpheme \<^verbatim>\<open>getWord().getId()\<close> first); \<open>None\<close> is a \<^verbatim>\<open>null\<close> reference. The
  getters of string type are kept as \<open>val\<close>, since the bridge may hand over
  \<^verbatim>\<open>null\<close>. \<^verbatim>\<open>hasNonTerminals()\<close> of a native tree is taken to say that the node has
  children.
\<close>

record JWord =
  JWord_getSurface :: val
  JWord_morphemes :: "JMorpheme list"

datatype JTree =
  JTree (JTree_getLabel_name: val) (JTree_getTerminal: "int option")
        (JTree_children: "JTree list") (JTree_getOriginalLabel: val)

record JDepEdge =
  JDepEdge_getGovernor :: "int option"
  JDepEdge_getDependent :: "int option"
  JDepEdge_getType_name :: val
  JDepEdge_getDepType_name :: "string option"
  JDepEdge_getOriginalLabel :: val

record JRoleEdge =
  JRoleEdge_getPredicate :: "int option"
  JRoleEdge_getArgument :: "int option"
  JRoleEdge_getLabel_name :: val
  JRoleEdge_getModifiers :: "int option list"
  JRoleEdge_getOriginalLabel :: val

record JEntity =
  JEntity_getSurface :: val
  JEntity_getLabel_name :: val
  JEntity_getFineLabel :: val
  JEntity_morphemes :: "(int \<times> int) list"
  JEntity_getOriginalLabel :: val

record JSentence =
  JSentence_words :: "JWord list"
  JSentence_getSyntaxTree :: "JTree option"
  JSentence_getDependencies :: "JDepEdge list"
  JSentence_getRoles :: "JRoleEdge list"
  JSentence_getEntities :: "JEntity list"
  JSentence_getCorefGroups :: "JEntity list list"

text \<open>
  \<^verbatim>\<open>JVM.toJsArray(array, itemConverter)\<close> converts the elements in order; a converter
  of the reconstruction builds objects, so it takes and returns the heap.
\<close>

fun JVM_toJsArray ::
  "(heap \<Rightarrow> 'a \<Rightarrow> error + ('b \<times> heap)) \<Rightarrow> heap \<Rightarrow> 'a list \<Rightarrow> error + ('b list \<times> heap)" where
  "JVM_toJsArray itemConverter h [] = Inr ([], h)"
| "JVM_toJsArray itemConverter h (x # xs) =
     (case itemConverter h x of
        Inl e \<Rightarrow> Inl e
      | Inr (y, h1) \<Rightarrow>
          (case JVM_toJsArray itemConverter h1 xs of
             Inl e \<Rightarrow> Inl e
           | Inr (ys, h2) \<Rightarrow> Inr (y # ys, h2)))"

definition Sentence_newMorpheme :: "heap \<Rightarrow> JMorpheme \<Rightarrow> error + (val \<times> heap)" where
  "Sentence_newMorpheme h m =
     bind (Morpheme_new h (JMorpheme_getSurface m) (JMorpheme_getTag_name m)
             (JMorpheme_getOriginalTag m) (Some m)) (\<lambda>(r, h1). Inr (MorphemeObj r, h1))"

definition Sentence_newWord :: "heap \<Rightarrow> JWord \<Rightarrow> error + (val \<times> heap)" where
  "Sentence_newWord h w =
     bind (JVM_toJsArray Sentence_newMorpheme h (JWord_morphemes w)) (\<lambda>(morphemes, h1).
     bind (Word_new h1 (JWord_getSurface w) morphemes) (\<lambda>(r, h2). Inr (WordObj r, h2)))"

text \<open>\<^verbatim>\<open>_getWord\<close> and \<^verbatim>\<open>_getMorph\<close>: positional lookup through the proxies.\<close>

definition Sentence_getWord :: "heap \<Rightarrow> ref \<Rightarrow> int option \<Rightarrow> val" where
  "Sentence_getWord h this jword =
     (case jword of
        None \<Rightarrow> Undefined
      | Some i \<Rightarrow>
          (case ImmutableArray_at (Sentence_items (Sentences h this)) i of
             None \<Rightarrow> Undefined
           | Some w \<Rightarrow> WordObj w))"

definition Sentence_getMorph :: "heap \<Rightarrow> ref \<Rightarrow> int \<times> int \<Rightarrow> error + val" where
  "Sentence_getMorph h this jmorph =
     (case ImmutableArray_at (Sentence_items (Sentences h this)) (fst jmorph) of
        None \<Rightarrow> Inl NullAccessError
      | Some w \<Rightarrow>
          (case ImmutableArray_at (Word_items (Words h w)) (snd jmorph) of
             None \<Rightarrow> Inr Undefined
           | Some m \<Rightarrow> Inr (MorphemeObj m)))"

fun Sentence_getMorphs :: "heap \<Rightarrow> ref \<Rightarrow> (int \<times> int) list \<Rightarrow> error + val list" where
  "Sentence_getMorphs h this [] = Inr []"
| "Sentence_getMorphs h this (x # xs) =
     (case Sentence_getMorph h this x of
        Inl e \<Rightarrow> Inl e
      | Inr m \<Rightarrow>
          (case Sentence_getMorphs h this xs of Inl e \<Rightarrow> Inl e | Inr ms \<Rightarrow> Inr (m # ms)))"

text \<open>
  \<^verbatim>\<open>_reconSyntaxTree\<close>, on a native node that is not \<^verbatim>\<open>null\<close>. \<^verbatim>\<open>nonTerms\<close> stays
  \<^verbatim>\<open>undefined\<close> (\<open>None\<close>) for a node without children.
\<close>

fun Sentence_reconSyntaxTree :: "heap \<Rightarrow> ref \<Rightarrow> JTree \<Rightarrow> error + (val \<times> heap)"
  and Sentence_reconSyntaxTrees :: "heap \<Rightarrow> ref \<Rightarrow> JTree list \<Rightarrow> error + (val list \<times> heap)" where
  "Sentence_reconSyntaxTree h this (JTree label terminal children originalLabel) =
     (let term = (case terminal of None \<Rightarrow> Undefined | Some i \<Rightarrow> Sentence_getWord h this (Some i))
      in case (if children \<noteq> []
               then (case Sentence_reconSyntaxTrees h this children of
                       Inl e \<Rightarrow> Inl e
                     | Inr (ts, h1) \<Rightarrow> Inr (Some ts, h1))
               else Inr (None, h)) of
           Inl e \<Rightarrow> Inl e
         | Inr (nonTerms, h1) \<Rightarrow>
             (case SyntaxTree_new h1 label term nonTerms (getOrUndefined originalLabel) of
                Inl e \<Rightarrow> Inl e
              | Inr (tree, h2) \<Rightarrow> Inr (SyntaxTreeObj tree, h2)))"
| "Sentence_reconSyntaxTrees h this [] = Inr ([], h)"
| "Sentence_reconSyntaxTrees h this (x # xs) =
     (case Sentence_reconSyntaxTree h this x of
        Inl e \<Rightarrow> Inl e
      | Inr (y, h1) \<Rightarrow>
          (case Sentence_reconSyntaxTrees h1 this xs of
             Inl e \<Rightarrow> Inl e
           | Inr (ys, h2) \<Rightarrow> Inr (y # ys, h2)))"

text \<open>
  \<^verbatim>\<open>_getDepEdge\<close> passes \<^verbatim>\<open>governor\<close>, \<^verbatim>\<open>dependent\<close>, \<^verbatim>\<open>type\<close>, \<^verbatim>\<open>depType\<close> and
  \<^verbatim>\<open>originalLabel\<close>; the object it builds has no \<^verbatim>\<open>src\<close>, \<^verbatim>\<open>dest\<close> or \<^verbatim>\<open>label\<close>.
\<close>

definition Sentence_getDepEdge :: "heap \<Rightarrow> ref \<Rightarrow> JDepEdge \<Rightarrow> error + (ref \<times> heap)" where
  "Sentence_getDepEdge h this e =
     DepEdge_new h
       (Sentence_getWord h this (JDepEdge_getGovernor e))
       (Sentence_getWord h this (JDepEdge_getDependent e))
       (JDepEdge_getType_name e)
       (case JDepEdge_getDepType_name e of None \<Rightarrow> Undefined | Some n \<Rightarrow> Str n)
       (getOrUndefined (JDepEdge_getOriginalLabel e))
       Undefined Undefined Undefined"

definition Sentence_getRole :: "heap \<Rightarrow> ref \<Rightarrow> JRoleEdge \<Rightarrow> error + (ref \<times> heap)" where
  "Sentence_getRole h this e =
     RoleEdge_new h
       (Sentence_getWord h this (JRoleEdge_getPredicate e))
       (Sentence_getWord h this (JRoleEdge_getArgument e))
       (JRoleEdge_getLabel_name e)
       (Some (map (Sentence_getWord h this) (JRoleEdge_getModifiers e)))
       (getOrUndefined (JRoleEdge_getOriginalLabel e))"

definition Sentence_getEntity :: "heap \<Rightarrow> ref \<Rightarrow> JEntity \<Rightarrow> error + (ref \<times> heap)" where
  "Sentence_getEntity h this e =
     bind (Sentence_getMorphs h this (JEntity_morphemes e)) (\<lambda>morphemes.
       Entity_new h (JEntity_getSurface e) (JEntity_getLabel_name e) (JEntity_getFineLabel e)
         morphemes (getOrUndefined (JEntity_getOriginalLabel e)))"

text \<open>
  \<^verbatim>\<open>_getCorefGroup\<close>: each native entry is first rebuilt with \<^verbatim>\<open>_getEntity\<close>, then
  looked up in \<^verbatim>\<open>this.entities\<close> with \<^verbatim>\<open>equals\<close>; \<^verbatim>\<open>find\<close> answers
  \<^verbatim>\<open>undefined\<close> when no entity matches.
\<close>

definition Sentence_getCorefEntity :: "ref \<Rightarrow> heap \<Rightarrow> JEntity \<Rightarrow> error + (val \<times> heap)" where
  "Sentence_getCorefEntity this h e =
     bind (Sentence_getEntity h this e) (\<lambda>(referenced, h1).
       Inr (case find (\<lambda>enty. Entity_equals h1 enty referenced)
                   (Sentence_entities (Sentences h1 this)) of
              None \<Rightarrow> Undefined
            | Some enty \<Rightarrow> EntityObj enty, h1))"

definition Sentence_getCorefGroup :: "ref \<Rightarrow> heap \<Rightarrow> JEntity list \<Rightarrow> error + (ref \<times> heap)" where
  "Sentence_getCorefGroup this h c =
     bind (JVM_toJsArray (Sentence_getCorefEntity this) h c) (\<lambda>(entities, h1).
       CoreferenceGroup_new h1 entities)"

text \<open>The last loop of the constructor: \<^verbatim>\<open>word.id = i\<close> for every word.\<close>

fun Sentence_link :: "heap \<Rightarrow> int \<Rightarrow> ref list \<Rightarrow> error + heap" where
  "Sentence_link h i [] = Inr h"
| "Sentence_link h i (word # ws) =
     (case Word_set_id h word (Num i) of
        Inl e \<Rightarrow> Inl e
      | Inr h1 \<Rightarrow> Sentence_link h1 (i + 1) ws)"

text \<open>
  \<^verbatim>\<open>new Sentence(value)\<close> for a native sentence (the branch
  \<^verbatim>\<open>!Array.isArray(value)\<close>): the words, the \<^verbatim>\<open>ImmutableArray\<close> constructor, then the
  syntax tree, the dependency edges, the role edges, the entities and the coreference
  groups in this order, each stored through its setter, and the ids of the words last.
\<close>

definition Sentence_new :: "heap \<Rightarrow> JSentence \<Rightarrow> error + (ref \<times> heap)" where
  "Sentence_new h value =
     bind (JVM_toJsArray Sentence_newWord h (JSentence_words value)) (\<lambda>(words, h1).
     bind (typeCheck words [''Word'']) (\<lambda>_.
       let this = nextRef h1;
           obj = \<lparr> Sentence_items = refsOf words,
                   Sentence_syntaxTree = Undefined,
                   Sentence_dependencies = [],
                   Sentence_roles = [],
                   Sentence_entities = [],
                   Sentence_corefGroups = [] \<rparr>;
           h2 = h1\<lparr>nextRef := Suc this, Sentences := (Sentences h1)(this := obj)\<rparr>
       in
     bind (case JSentence_getSyntaxTree value of
             None \<Rightarrow> Inr (Undefined, h2)
           | Some jtree \<Rightarrow> Sentence_reconSyntaxTree h2 this jtree) (\<lambda>(tree, h3).
     bind (Sentence_set_syntaxTree h3 this tree) (\<lambda>h4.
     bind (JVM_toJsArray (\<lambda>h e. Sentence_getDepEdge h this e) h4
             (JSentence_getDependencies value)) (\<lambda>(deps, h5).
     bind (replaceableifempty_set ''dependencies''
             (Sentence_dependencies (Sentences h5 this)) deps) (\<lambda>v5.
       let h6 = h5\<lparr>Sentences := (Sentences h5)(this := (Sentences h5 this)
                     \<lparr>Sentence_dependencies := v5\<rparr>)\<rparr> in
     bind (JVM_toJsArray (\<lambda>h e. Sentence_getRole h this e) h6
             (JSentence_getRoles value)) (\<lambda>(roles, h7).
     bind (replaceableifempty_set ''roles''
             (Sentence_roles (Sentences h7 this)) roles) (\<lambda>v7.
       let h8 = h7\<lparr>Sentences := (Sentences h7)(this := (Sentences h7 this)
                     \<lparr>Sentence_roles := v7\<rparr>)\<rparr> in
     bind (JVM_toJsArray (\<lambda>h e. Sentence_getEntity h this e) h8
             (JSentence_getEntities value)) (\<lambda>(ents, h9).
     bind (replaceableifempty_set ''entities''
             (Sentence_entities (Sentences h9 this)) ents) (\<lambda>v9.
       let h10 = h9\<lparr>Sentences := (Sentences h9)(this := (Sentences h9 this)
                     \<lparr>Sentence_entities := v9\<rparr>)\<rparr> in
     bind (JVM_toJsArray (Sentence_getCorefGroup this) h10
             (JSentence_getCorefGroups value)) (\<lambda>(groups, h11).
     bind (replaceableifempty_set ''corefGroups''
             (Sentence_corefGroups (Sentences h11 this)) groups) (\<lambda>v11.
       let h12 = h11\<lparr>Sentences := (Sentences h11)(this := (Sentences h11 this)
                     \<lparr>Sentence_corefGroups := v11\<rparr>)\<rparr> in
     bind (Sentence_link h12 0 (Sentence_items (Sentences h12 this))) (\<lambda>h13.
       Inr (this, h13))))))))))))))"





section \<open>What the later passes of the reconstruction leave alone\<close>

text \<open>
  Two relations for the proofs about the reconstruction. \<open>frame h h'\<close>: from \<open>h\<close> to
  \<open>h'\<close> no object lost its identity, the surface and tag of every morpheme, the items
  of every word and sentence and the label, fine label and items of every entity that
  existed are the same, and the \<^verbatim>\<open>entities\<close> list of a morpheme has only grown.
  \<open>built h s e E\<close>: the Entity \<open>E\<close> of \<open>h\<close> is what \<^verbatim>\<open>_getEntity\<close> makes of the native
  entity \<open>e\<close> in sentence \<open>s\<close>, and it stands in the \<^verbatim>\<open>entities\<close> list of each of its
  morphemes.
\<close>

definition frame :: "heap \<Rightarrow> heap \<Rightarrow> bool" where
  "frame h h' \<longleftrightarrow>
     nextRef h \<le> nextRef h' \<and>
     (\<forall>m. Morpheme_surface (Morphemes h' m) = Morpheme_surface (Morphemes h m) \<and>
          Morpheme_tag (Morphemes h' m) = Morpheme_tag (Morphemes h m) \<and>
          set (Morpheme_entities (Morphemes h m)) \<subseteq> set (Morpheme_entities (Morphemes h' m))) \<and>
     (\<forall>w. Word_items (Words h' w) = Word_items (Words h w)) \<and>
     (\<forall>s. Sentence_items (Sentences h' s) = Sentence_items (Sentences h s)) \<and>
     (\<forall>r < nextRef h.
          Entity_label (Entities h' r) = Entity_label (Entities h r) \<and>
          Entity_fineLabel (Entities h' r) = Entity_fineLabel (Entities h r) \<and>
          Entity_items (Entities h' r) = Entity_items (Entities h r))"


section \<open>The heap of a program that has built nothing yet\<close>

text \<open>
  No object exists: the first \<^verbatim>\<open>new\<close> receives reference \<open>0\<close>. The concrete runs
  below start here.
\<close>

definition heap_init :: heap where
  "heap_init =
     \<lparr> nextRef = 0,
       Morphemes = (\<lambda>_. \<lparr> Morpheme_surface = Undefined, Morpheme_tag = Undefined,
                           Morpheme_originalTag = Undefined, Morpheme_reference = None,
                           Morpheme_id = Undefined, Morpheme_word = Undefined,
                           Morpheme_wordsense = Undefined, Morpheme_wordSense = Undefined,
                           Morpheme_entities = [] \<rparr>),
       Words = (\<lambda>_. \<lparr> Word_surface = Undefined, Word_items = [], Word_id = Undefined,
                       Word_phrase = Undefined, Word_governorEdge = Undefined,
                       Word_dependentEdges = [], Word_argumentRoles = [],
                       Word_predicateRoles = [] \<rparr>),
       Entities = (\<lambda>_. \<lparr> Entity_surface = Undefined, Entity_label = Undefined,
                          Entity_fineLabel = Undefined, Entity_originalLabel = Undefined,
                          Entity_items = [], Entity_corefGroup = Undefined \<rparr>),
       CoreferenceGroups = (\<lambda>_. \<lparr> CoreferenceGroup_items = [] \<rparr>),
       Trees = (\<lambda>_. \<lparr> Tree_label = Undefined, Tree_terminal = Undefined, Tree_items = [],
                       Tree_parent = Undefined, Tree_originalLabel = Undefined \<rparr>),
       DepEdges = (\<lambda>_. \<lparr> DepEdge_src = Undefined, DepEdge_dest = Undefined,
                          DepEdge_label = Undefined, DepEdge_type = Undefined,
                          DepEdge_originalLabel = Undefined \<rparr>),
       RoleEdges = (\<lambda>_. \<lparr> RoleEdge_src = Undefined, RoleEdge_dest = Undefined,
                           RoleEdge_label = Undefined, RoleEdge_modifiers = [],
                           RoleEdge_originalLabel = Undefined \<rparr>),
       Sentences = (\<lambda>_. \<lparr> Sentence_items = [], Sentence_syntaxTree = Undefined,
                           Sentence_dependencies = [], Sentence_roles = [],
                           Sentence_entities = [], Sentence_corefGroups = [] \<rparr>) \<rparr>"


text \<open>
  The heap after \<^verbatim>\<open>m = new Morpheme({surface: 'a', tag: 'NNG'})\<close> and then
  \<^verbatim>\<open>w = new Word({surface: 'a', morphemes: [m]})\<close>: the morpheme is object \<open>0\<close>, the
  word object \<open>1\<close>.
\<close>

definition heap_one_morpheme :: heap where
  "heap_one_morpheme = snd (projr (Morpheme_new heap_init (Str ''a'') (Str ''NNG'') Undefined None))"

definition heap_one_word :: heap where
  "heap_one_word = snd (projr (Word_new heap_one_morpheme (Str ''a'') [MorphemeObj 0]))"







text \<open>
  An analysed sentence of two words, the first of the morphemes \<^verbatim>\<open>gongbu/NNG\<close>,
  \<^verbatim>\<open>ha/XSV\<close>, \<^verbatim>\<open>da/EF\<close>, the second of \<^verbatim>\<open>Kim/NNP\<close>; one role edge, one entity
  over the morpheme of the second word, and one coreference group that refers to this
  entity. The catalog knows the four tags, takes the tags that begin with \<^verbatim>\<open>N\<close> for
  nouns and compares prefixes literally. \<open>heap_example\<close> is the heap after
  \<^verbatim>\<open>new Sentence\<close> on it.
\<close>

definition JavaPOS_example :: JavaPOS where
  "JavaPOS_example =
     \<lparr> JavaPOS_values = [''NNG'', ''NNP'', ''XSV'', ''EF''],
       JavaPOS_isNoun = (\<lambda>t. take 1 t = ''N''),
       JavaPOS_startsWith = (\<lambda>t p. take (length p) t = p) \<rparr>"

definition JMorpheme_example :: "string \<Rightarrow> string \<Rightarrow> JMorpheme" where
  "JMorpheme_example surface tag =
     \<lparr> JMorpheme_getSurface = Str surface, JMorpheme_getTag_name = Str tag,
       JMorpheme_getOriginalTag = Undefined, JMorpheme_getWordSense = Null \<rparr>"

definition JEntity_example :: JEntity where
  "JEntity_example =
     \<lparr> JEntity_getSurface = Str ''Kim'', JEntity_getLabel_name = Str ''PS'',
       JEntity_getFineLabel = Str ''PS_NAME'', JEntity_morphemes = [(1, 0)],
       JEntity_getOriginalLabel = Null \<rparr>"

definition JSentence_example :: JSentence where
  "JSentence_example =
     \<lparr> JSentence_words =
         [\<lparr> JWord_getSurface = Str ''gongbuhada'',
            JWord_morphemes = [JMorpheme_example ''gongbu'' ''NNG'', JMorpheme_example ''ha'' ''XSV'',
                               JMorpheme_example ''da'' ''EF''] \<rparr>,
          \<lparr> JWord_getSurface = Str ''Kim'',
            JWord_morphemes = [JMorpheme_example ''Kim'' ''NNP''] \<rparr>],
       JSentence_getSyntaxTree = None,
       JSentence_getDependencies = [],
       JSentence_getRoles =
         [\<lparr> JRoleEdge_getPredicate = Some 0, JRoleEdge_getArgument = Some 1,
            JRoleEdge_getLabel_name = Str ''ARG0'', JRoleEdge_getModifiers = [],
            JRoleEdge_getOriginalLabel = Null \<rparr>],
       JSentence_getEntities = [JEntity_example],
       JSentence_getCorefGroups = [[JEntity_example]] \<rparr>"

definition heap_example :: heap where
  "heap_example = snd (projr (Sentence_new heap_init JSentence_example))"

section \<open>Elementary facts\<close>


lemma bind_Inl [simp]: "bind (Inl e) f = Inl e"
  by (simp add: bind_def)

lemma bind_Inr [simp]: "bind (Inr x) f = f x"
  by (simp add: bind_def)

lemma bind_eq_Inr: "bind m f = Inr y \<longleftrightarrow> (\<exists>x. m = Inr x \<and> f x = Inr y)"
  by (cases m) simp_all

lemma writeonlyonce_set_defined:
  "writeonlyonce_set p v n = Inr c \<Longrightarrow> isDefined v \<Longrightarrow> n = v"
  by (auto simp: writeonlyonce_set_def split: if_splits)

lemma writeonlyonce_set_result:
  "writeonlyonce_set p v n = Inr c \<Longrightarrow> c = n"
  by (auto simp: writeonlyonce_set_def split: if_splits)

subsection \<open>typeCheck and the checked arrays\<close>

lemma typeCheck_Nil [simp]: "typeCheck [] types = Inr ()"
  by (simp add: typeCheck_def)

lemma typeCheck_Cons:
  "typeCheck (v # vs) types =
     (case typeName v of
        Inl e \<Rightarrow> Inl e
      | Inr t \<Rightarrow>
          (case typeNames vs of
             Inl e \<Rightarrow> Inl e
           | Inr ts \<Rightarrow> if t \<notin> set types then Inl (TypeCheckError types t) else typeCheck vs types))"
  by (simp add: typeCheck_def split: sum.splits)

lemma typeCheck_Inr_iff:
  "typeCheck vs types = Inr () \<longleftrightarrow> (\<forall>v \<in> set vs. \<exists>t. typeName v = Inr t \<and> t \<in> set types)"
proof (induction vs)
  case Nil
  show ?case by simp
next
  case (Cons v vs)
  show ?case
  proof (cases "typeName v")
    case (Inl e)
    then show ?thesis by (simp add: typeCheck_Cons)
  next
    case (Inr t)
    show ?thesis
    proof (cases "typeNames vs")
      case (Inl e)
      then have "typeCheck vs types \<noteq> Inr ()" by (simp add: typeCheck_def)
      with Cons Inl Inr show ?thesis by (auto simp: typeCheck_Cons)
    next
      case r: (Inr ts)
      with Cons Inr show ?thesis by (auto simp: typeCheck_Cons)
    qed
  qed
qed

lemma EnumClass_name_not_class [simp]:
  "EnumClass_name c \<noteq> ''Morpheme''" "EnumClass_name c \<noteq> ''Word''"
  "EnumClass_name c \<noteq> ''Entity''" "EnumClass_name c \<noteq> ''SyntaxTree''"
  "EnumClass_name c \<noteq> ''Tree''" "EnumClass_name c \<noteq> ''string''"
  "EnumClass_name c \<noteq> ''undefined''"
  by (cases c; simp)+

lemma typeName_Morpheme: "typeName v = Inr ''Morpheme'' \<longleftrightarrow> (\<exists>r. v = MorphemeObj r)"
  by (cases v) simp_all


lemma typeName_Word: "typeName v = Inr ''Word'' \<longleftrightarrow> (\<exists>r. v = WordObj r)"
  by (cases v) simp_all

lemma typeName_Entity: "typeName v = Inr ''Entity'' \<longleftrightarrow> (\<exists>r. v = EntityObj r)"
  by (cases v) simp_all

lemma typeCheck_Morpheme_iff:
  "typeCheck vs [''Morpheme''] = Inr () \<longleftrightarrow> (\<exists>rs. vs = map MorphemeObj rs)"
proof -
  have "(\<forall>v \<in> set vs. \<exists>r. v = MorphemeObj r) \<longleftrightarrow> (\<exists>rs. vs = map MorphemeObj rs)"
    by (induction vs) (auto simp: Cons_eq_map_conv)
  then show ?thesis
    by (simp add: typeCheck_Inr_iff typeName_Morpheme)
qed

lemma typeCheck_Entity_iff:
  "typeCheck vs [''Entity''] = Inr () \<longleftrightarrow> (\<exists>rs. vs = map EntityObj rs)"
proof -
  have "(\<forall>v \<in> set vs. \<exists>r. v = EntityObj r) \<longleftrightarrow> (\<exists>rs. vs = map EntityObj rs)"
    by (induction vs) (auto simp: Cons_eq_map_conv)
  then show ?thesis
    by (simp add: typeCheck_Inr_iff typeName_Entity)
qed

lemma typeCheck_Word_iff:
  "typeCheck vs [''Word''] = Inr () \<longleftrightarrow> (\<exists>rs. vs = map WordObj rs)"
proof -
  have "(\<forall>v \<in> set vs. \<exists>r. v = WordObj r) \<longleftrightarrow> (\<exists>rs. vs = map WordObj rs)"
    by (induction vs) (auto simp: Cons_eq_map_conv)
  then show ?thesis
    by (simp add: typeCheck_Inr_iff typeName_Word)
qed

lemma refsOf_Nil [simp]: "refsOf [] = []"
  by (simp add: refsOf_def List.map_filter_simps)

lemma refsOf_map_MorphemeObj [simp]: "refsOf (map MorphemeObj rs) = rs"
  by (induction rs) (simp_all add: refsOf_def List.map_filter_simps)

lemma refsOf_map_EntityObj [simp]: "refsOf (map EntityObj rs) = rs"
  by (induction rs) (simp_all add: refsOf_def List.map_filter_simps)

lemma refsOf_map_WordObj [simp]: "refsOf (map WordObj rs) = rs"
  by (induction rs) (simp_all add: refsOf_def List.map_filter_simps)

section \<open>The Word constructor numbers its morphemes\<close>

lemma Morpheme_set_word_Inr:
  "Morpheme_set_word h m v = Inr h1 \<Longrightarrow>
     h1 = h\<lparr>Morphemes := (Morphemes h)(m := (Morphemes h m)\<lparr>Morpheme_word := v\<rparr>)\<rparr> \<and>
     (isDefined (Morpheme_word (Morphemes h m)) \<longrightarrow> Morpheme_word (Morphemes h m) = v)"
  by (auto simp: Morpheme_set_word_def bind_eq_Inr dest: writeonlyonce_set_result writeonlyonce_set_defined)

lemma Morpheme_set_id_Inr:
  "Morpheme_set_id h m v = Inr h1 \<Longrightarrow>
     h1 = h\<lparr>Morphemes := (Morphemes h)(m := (Morphemes h m)\<lparr>Morpheme_id := v\<rparr>)\<rparr> \<and>
     (isDefined (Morpheme_id (Morphemes h m)) \<longrightarrow> Morpheme_id (Morphemes h m) = v)"
  by (auto simp: Morpheme_set_id_def bind_eq_Inr dest: writeonlyonce_set_result writeonlyonce_set_defined)

lemma Word_link_keeps:
  "Word_link h w i ms = Inr h' \<Longrightarrow>
     (isDefined (Morpheme_word (Morphemes h m)) \<longrightarrow>
        Morpheme_word (Morphemes h' m) = Morpheme_word (Morphemes h m)) \<and>
     (isDefined (Morpheme_id (Morphemes h m)) \<longrightarrow>
        Morpheme_id (Morphemes h' m) = Morpheme_id (Morphemes h m)) \<and>
     Words h' = Words h \<and> nextRef h' = nextRef h"
proof (induction ms arbitrary: h i)
  case Nil
  then show ?case by simp
next
  case (Cons a ms)
  from Cons.prems obtain h1 h2 where
    s1: "Morpheme_set_word h a (WordObj w) = Inr h1" and
    s2: "Morpheme_set_id h1 a (Num i) = Inr h2" and
    rest: "Word_link h2 w (i + 1) ms = Inr h'"
    by (auto split: sum.splits)
  note e1 = Morpheme_set_word_Inr[OF s1] and e2 = Morpheme_set_id_Inr[OF s2]
  have k1: "isDefined (Morpheme_word (Morphemes h m)) \<Longrightarrow>
            Morpheme_word (Morphemes h2 m) = Morpheme_word (Morphemes h m)"
    using e1 e2 by (cases "m = a") auto
  have k2: "isDefined (Morpheme_id (Morphemes h m)) \<Longrightarrow>
            Morpheme_id (Morphemes h2 m) = Morpheme_id (Morphemes h m)"
    using e1 e2 by (cases "m = a") auto
  have k3: "Words h2 = Words h" "nextRef h2 = nextRef h"
    using e1 e2 by auto
  from Cons.IH[OF rest] k1 k2 k3 show ?case by auto
qed

lemma Word_link_sets:
  "Word_link h w i ms = Inr h' \<Longrightarrow> k < length ms \<Longrightarrow>
     Morpheme_id (Morphemes h' (ms ! k)) = Num (i + int k) \<and>
     Morpheme_word (Morphemes h' (ms ! k)) = WordObj w"
proof (induction ms arbitrary: h i k)
  case Nil
  then show ?case by simp
next
  case (Cons a ms)
  from Cons.prems(1) obtain h1 h2 where
    s1: "Morpheme_set_word h a (WordObj w) = Inr h1" and
    s2: "Morpheme_set_id h1 a (Num i) = Inr h2" and
    rest: "Word_link h2 w (i + 1) ms = Inr h'"
    by (auto split: sum.splits)
  note e1 = Morpheme_set_word_Inr[OF s1] and e2 = Morpheme_set_id_Inr[OF s2]
  show ?case
  proof (cases k)
    case 0
    have "Morpheme_word (Morphemes h2 a) = WordObj w" "Morpheme_id (Morphemes h2 a) = Num i"
      using e1 e2 by auto
    with Word_link_keeps[OF rest, of a] 0 show ?thesis
      by (simp add: isDefined_def)
  next
    case (Suc j)
    with Cons.prems(2) have "j < length ms" by simp
    from Cons.IH[OF rest this] Suc show ?thesis by simp
  qed
qed

text \<open>
  Morphemes that are pairwise different objects and belong to no word yet make a Word:
  the constructor returns.
\<close>

lemma Word_link_succeeds:
  "distinct ms \<Longrightarrow>
   \<forall>m \<in> set ms. \<not> isDefined (Morpheme_word (Morphemes h m)) \<and>
                  \<not> isDefined (Morpheme_id (Morphemes h m)) \<Longrightarrow>
   \<exists>h'. Word_link h w i ms = Inr h'"
proof (induction ms arbitrary: h i)
  case Nil
  show ?case by simp
next
  case (Cons a ms)
  define h1 where "h1 = h\<lparr>Morphemes := (Morphemes h)(a := (Morphemes h a)\<lparr>Morpheme_word := WordObj w\<rparr>)\<rparr>"
  define h2 where "h2 = h1\<lparr>Morphemes := (Morphemes h1)(a := (Morphemes h1 a)\<lparr>Morpheme_id := Num i\<rparr>)\<rparr>"
  from Cons.prems have ua: "\<not> isDefined (Morpheme_word (Morphemes h a))"
    "\<not> isDefined (Morpheme_id (Morphemes h a))" by simp_all
  have s1: "Morpheme_set_word h a (WordObj w) = Inr h1"
    using ua by (simp add: Morpheme_set_word_def writeonlyonce_set_def h1_def)
  have s2: "Morpheme_set_id h1 a (Num i) = Inr h2"
    using ua by (simp add: Morpheme_set_id_def writeonlyonce_set_def h1_def h2_def)
  from Cons.prems have "distinct ms" "a \<notin> set ms" by simp_all
  moreover from this Cons.prems(2)
  have "\<forall>m \<in> set ms. \<not> isDefined (Morpheme_word (Morphemes h2 m)) \<and>
                  \<not> isDefined (Morpheme_id (Morphemes h2 m))"
    by (auto simp: h1_def h2_def)
  ultimately obtain h' where "Word_link h2 w (i + 1) ms = Inr h'"
    using Cons.IH by blast
  with s1 s2 show ?case by simp
qed

lemma Word_new_succeeds:
  assumes "distinct ms"
    and "\<forall>m \<in> set ms. \<not> isDefined (Morpheme_word (Morphemes h m)) \<and>
                       \<not> isDefined (Morpheme_id (Morphemes h m))"
  shows "\<exists>w h'. Word_new h (Str s) (map MorphemeObj ms) = Inr (w, h')"
proof -
  define h1 where "h1 = h\<lparr>nextRef := Suc (nextRef h), Words := (Words h)(nextRef h :=
      \<lparr> Word_surface = Str s, Word_items = ms, Word_id = Undefined, Word_phrase = Undefined,
        Word_governorEdge = Undefined, Word_dependentEdges = [], Word_argumentRoles = [],
        Word_predicateRoles = [] \<rparr>)\<rparr>"
  from assms(2) have "\<forall>m \<in> set ms. \<not> isDefined (Morpheme_word (Morphemes h1 m)) \<and>
                       \<not> isDefined (Morpheme_id (Morphemes h1 m))"
    by (simp add: h1_def)
  from Word_link_succeeds[OF assms(1) this, of "nextRef h" 0] obtain h' where
    "Word_link h1 (nextRef h) 0 ms = Inr h'" by blast
  moreover have "typeCheck (map MorphemeObj ms) [''Morpheme''] = Inr ()"
    unfolding typeCheck_Morpheme_iff by blast
  moreover have "typeCheck [Str s] [''string''] = Inr ()"
    by (simp add: typeCheck_def)
  ultimately show ?thesis
    by (simp add: Word_new_def Let_def h1_def)
qed

text \<open>
  Claim C5. Whenever \<^verbatim>\<open>new Word\<close> returns, the word holds the morphemes it was given,
  in order, and for every index \<open>i\<close> the morpheme at \<open>i\<close> reports \<^verbatim>\<open>id\<close> \<open>i\<close> and
  \<^verbatim>\<open>word\<close> the new Word itself. (A morpheme that already belongs to another word makes
  the constructor raise, so the statement covers every word that gets constructed.)
\<close>

theorem Word_new_assigns_ids:
  "Word_new h surface morphemes = Inr (w, h') \<Longrightarrow>
     length (Word_items (Words h' w)) = length morphemes \<and>
     (\<forall>i < length morphemes.
        morphemes ! i = MorphemeObj (Word_items (Words h' w) ! i) \<and>
        Morpheme_get_id h' (Word_items (Words h' w) ! i) = Num (int i) \<and>
        Morpheme_get_word h' (Word_items (Words h' w) ! i) = WordObj w)"
proof -
  assume new: "Word_new h surface morphemes = Inr (w, h')"
  then obtain rs where rs: "morphemes = map MorphemeObj rs"
    by (auto simp: Word_new_def bind_eq_Inr typeCheck_Morpheme_iff)
  define h1 where "h1 = h\<lparr>nextRef := Suc (nextRef h), Words := (Words h)(nextRef h :=
      \<lparr> Word_surface = surface, Word_items = rs, Word_id = Undefined, Word_phrase = Undefined,
        Word_governorEdge = Undefined, Word_dependentEdges = [], Word_argumentRoles = [],
        Word_predicateRoles = [] \<rparr>)\<rparr>"
  from new rs have w: "w = nextRef h" and link: "Word_link h1 w 0 rs = Inr h'"
    by (auto simp: Word_new_def bind_eq_Inr Let_def h1_def)
  have items: "Word_items (Words h' w) = rs"
    using Word_link_keeps[OF link] by (simp add: h1_def w)
  show ?thesis
    using Word_link_sets[OF link] items rs
    by (simp add: Morpheme_get_id_def Morpheme_get_word_def writeonlyonce_get_def isDefined_def)
qed


text \<open>The definitions a concrete run unfolds.\<close>

lemmas eval_defs =
  Morpheme_new_def Word_new_def Entity_new_def typeCheck_def heap_init_def tagnameOf_def
  refsOf_def List.map_filter_simps Morpheme_entities_push_def Let_def
  Morpheme_set_word_def Morpheme_set_id_def writeonlyonce_set_def writeonlyonce_get_def
  isDefined_def getOrUndefined_def Morpheme_set_wordSense_def Morpheme_get_wordSense_def

lemma two_morphemes_word:
  "\<exists>m0 h1 m1 h2 w h3.
     Morpheme_new heap_init (Str ''a'') (Str ''NNG'') Undefined None = Inr (m0, h1) \<and>
     Morpheme_new h1 (Str ''b'') (Str ''JKS'') Undefined None = Inr (m1, h2) \<and>
     m0 \<noteq> m1 \<and>
     Word_new h2 (Str ''ab'') [MorphemeObj m0, MorphemeObj m1] = Inr (w, h3)"
  by (simp add: eval_defs)

theorem Word_new_assigns_ids_witness:
  "\<exists>m0 h1 m1 h2 w h3.
     Morpheme_new heap_init (Str ''a'') (Str ''NNG'') Undefined None = Inr (m0, h1) \<and>
     Morpheme_new h1 (Str ''b'') (Str ''JKS'') Undefined None = Inr (m1, h2) \<and>
     Word_new h2 (Str ''ab'') [MorphemeObj m0, MorphemeObj m1] = Inr (w, h3) \<and>
     Morpheme_get_id h3 m0 = Num 0 \<and> Morpheme_get_word h3 m0 = WordObj w \<and>
     Morpheme_get_id h3 m1 = Num 1 \<and> Morpheme_get_word h3 m1 = WordObj w"
proof -
  from two_morphemes_word obtain m0 h1 m1 h2 w h3 where
    a: "Morpheme_new heap_init (Str ''a'') (Str ''NNG'') Undefined None = Inr (m0, h1)" and
    b: "Morpheme_new h1 (Str ''b'') (Str ''JKS'') Undefined None = Inr (m1, h2)" and
    c: "Word_new h2 (Str ''ab'') [MorphemeObj m0, MorphemeObj m1] = Inr (w, h3)"
    by blast
  from Word_new_assigns_ids[OF c] have p:
    "i < 2 \<Longrightarrow> [MorphemeObj m0, MorphemeObj m1] ! i = MorphemeObj (Word_items (Words h3 w) ! i) \<and>
        Morpheme_get_id h3 (Word_items (Words h3 w) ! i) = Num (int i) \<and>
        Morpheme_get_word h3 (Word_items (Words h3 w) ! i) = WordObj w" for i
    by simp
  from p[of 0] p[of 1]
  have "Morpheme_get_id h3 m0 = Num 0 \<and> Morpheme_get_word h3 m0 = WordObj w \<and>
     Morpheme_get_id h3 m1 = Num 1 \<and> Morpheme_get_word h3 m1 = WordObj w"
    by simp
  with a b c show ?thesis by blast
qed


section \<open>The accessors of a write-once property\<close>


lemma writeonlyonce_set_same [simp]: "writeonlyonce_set p v v = Inr v"
  by (simp add: writeonlyonce_set_def)












text \<open>More definitions for the concrete runs.\<close>

lemmas eval_defs2 = eval_defs bind_def
  Tree_new_def SyntaxTree_new_def Word_set_phrase_def Tree_set_parent_def
  DepEdge_new_def DAGEdge_new_def Word_set_governorEdge_def
  CoreferenceGroup_new_def Entity_set_corefGroup_def RoleEdge_new_def assert_def

section \<open>RoleEdge requires its predicate as well as its argument\<close>

lemma typeCheck_single:
  "typeCheck [v] types = Inr () \<longleftrightarrow> (\<exists>t. typeName v = Inr t \<and> t \<in> set types)"
  by (simp add: typeCheck_Inr_iff)

lemma typeCheck_string [simp]:
  "typeCheck [v] [''string''] = Inr () \<longleftrightarrow> (\<exists>s. v = Str s)"
  unfolding typeCheck_single by (cases v) auto

lemma typeCheck_undefined_string [simp]:
  "typeCheck [v] [''undefined'', ''string''] = Inr () \<longleftrightarrow> v = Undefined \<or> (\<exists>s. v = Str s)"
  unfolding typeCheck_single by (cases v) auto

lemma typeCheck_is_Word [simp]:
  "typeCheck [v] [''Word''] = Inr () \<longleftrightarrow> (\<exists>r. v = WordObj r)"
  unfolding typeCheck_single by (cases v) auto

lemma typeCheck_undefined_Word [simp]:
  "typeCheck [v] [''undefined'', ''Word''] = Inr () \<longleftrightarrow> v = Undefined \<or> (\<exists>r. v = WordObj r)"
  unfolding typeCheck_single by (cases v) auto

lemma typeCheck_string_RoleType [simp]:
  "typeCheck [v] [''string'', ''RoleType''] = Inr () \<longleftrightarrow>
     (\<exists>s. v = Str s) \<or> (\<exists>n. v = EnumObj RoleType n)"
  unfolding typeCheck_single
  by (cases v; simp) (rename_tac c n, case_tac c, simp_all)

lemma typeCheck_string_CoarseEntityType [simp]:
  "typeCheck [v] [''string'', ''CoarseEntityType''] = Inr () \<longleftrightarrow>
     (\<exists>s. v = Str s) \<or> (\<exists>n. v = EnumObj CoarseEntityType n)"
  unfolding typeCheck_single
  by (cases v; simp) (rename_tac c n, case_tac c, simp_all)

lemma typeCheck_two_strings [simp]:
  "typeCheck [u, v] [''string''] = Inr () \<longleftrightarrow> (\<exists>s. u = Str s) \<and> (\<exists>s. v = Str s)"
  unfolding typeCheck_Inr_iff by (cases u; cases v) auto

lemma bind_unit_eq_Inr [simp]:
  "bind c (\<lambda>_. k) = Inr y \<longleftrightarrow> c = Inr () \<and> k = Inr y"
  by (cases c) simp_all

lemma assert_eq_Inr [simp]: "assert b msg = Inr () \<longleftrightarrow> b"
  by (simp add: assert_def)

lemma DAGEdge_new_Inr_iff:
  "DAGEdge_new src dest label = Inr () \<longleftrightarrow>
     (src = Undefined \<or> (\<exists>r. src = WordObj r)) \<and> (\<exists>r. dest = WordObj r) \<and>
     (label = Undefined \<or> (\<exists>s. label = Str s))"
  by (simp add: DAGEdge_new_def)

lemma tagnameOf_string_or_enum:
  "(\<exists>s. v = Str s) \<or> (\<exists>n. v = EnumObj c n) \<Longrightarrow> \<exists>s. tagnameOf c v = Str s"
  by (auto simp: tagnameOf_def)

text \<open>
  Claim C1, as amended. \<^verbatim>\<open>new RoleEdge\<close> returns exactly when the predicate and the
  argument are both Words (and the label is a string or a \<^verbatim>\<open>RoleType\<close>, the original
  label \<^verbatim>\<open>undefined\<close> or a string, every modifier a Word). So it raises whenever the
  argument is absent, and it raises as well whenever the predicate is absent: the
  constructor asserts \<^verbatim>\<open>isDefined(value.predicate)\<close>.
\<close>

theorem RoleEdge_new_succeeds_iff:
  "(\<exists>r h'. RoleEdge_new h predicate argument label modifiers originalLabel = Inr (r, h')) \<longleftrightarrow>
     ((\<exists>s. label = Str s) \<or> (\<exists>n. label = EnumObj RoleType n)) \<and>
     (originalLabel = Undefined \<or> (\<exists>s. originalLabel = Str s)) \<and>
     (\<exists>ws. (case modifiers of None \<Rightarrow> [] | Some ms \<Rightarrow> ms) = map WordObj ws) \<and>
     (\<exists>p. predicate = WordObj p) \<and> (\<exists>a. argument = WordObj a)"
proof -
  have pred: "isDefined predicate \<and> (predicate = Undefined \<or> (\<exists>r. predicate = WordObj r))
      \<longleftrightarrow> (\<exists>p. predicate = WordObj p)"
    by (auto simp: isDefined_def)
  have lab: "(\<exists>s. label = Str s) \<or> (\<exists>n. label = EnumObj RoleType n) \<Longrightarrow>
      (tagnameOf RoleType label = Undefined \<or> (\<exists>s. tagnameOf RoleType label = Str s))"
    using tagnameOf_string_or_enum[of label RoleType] by blast
  show ?thesis
    unfolding RoleEdge_new_def Let_def
    using pred lab
    by (simp add: typeCheck_Word_iff DAGEdge_new_Inr_iff) blast
qed


lemma heap_one_word_run:
  "Morpheme_new heap_init (Str ''a'') (Str ''NNG'') Undefined None = Inr (0, heap_one_morpheme)"
  "Word_new heap_one_morpheme (Str ''a'') [MorphemeObj 0] = Inr (1, heap_one_word)"
  by (simp_all add: heap_one_word_def heap_one_morpheme_def eval_defs2)

text \<open>
  Claim C1 as stated fails: with the argument a Word and the predicate \<^verbatim>\<open>undefined\<close>
  the constructor raises at its assertion.
\<close>

theorem RoleEdge_new_without_predicate_counterexample:
  "RoleEdge_new heap_one_word Undefined (WordObj 1) (Str ''ARG0'') None Undefined =
     Inl (AssertError ''[value.predicate] must not be undefined'')"
  by (simp add: RoleEdge_new_def Let_def assert_def isDefined_def typeCheck_def)

lemma one_word:
  "\<exists>m h1 w h2.
     Morpheme_new heap_init (Str ''a'') (Str ''NNG'') Undefined None = Inr (m, h1) \<and>
     Word_new h1 (Str ''a'') [MorphemeObj m] = Inr (w, h2)"
  by (simp add: eval_defs2)

theorem RoleEdge_new_succeeds_iff_witness:
  "\<exists>m h1 w h2.
     Morpheme_new heap_init (Str ''a'') (Str ''NNG'') Undefined None = Inr (m, h1) \<and>
     Word_new h1 (Str ''a'') [MorphemeObj m] = Inr (w, h2) \<and>
     (\<exists>r h'. RoleEdge_new h2 (WordObj w) (WordObj w) (Str ''ARG0'') None Undefined = Inr (r, h')) \<and>
     (\<nexists>r h'. RoleEdge_new h2 (WordObj w) Undefined (Str ''ARG0'') None Undefined = Inr (r, h')) \<and>
     (\<nexists>r h'. RoleEdge_new h2 Undefined (WordObj w) (Str ''ARG0'') None Undefined = Inr (r, h'))"
proof -
  from one_word obtain m h1 w h2 where
    run: "Morpheme_new heap_init (Str ''a'') (Str ''NNG'') Undefined None = Inr (m, h1)"
      "Word_new h1 (Str ''a'') [MorphemeObj m] = Inr (w, h2)"
    by blast
  have a: "\<exists>r h'. RoleEdge_new h2 (WordObj w) (WordObj w) (Str ''ARG0'') None Undefined = Inr (r, h')"
    using RoleEdge_new_succeeds_iff[of h2 "WordObj w" "WordObj w" "Str ''ARG0''" None Undefined]
    by simp
  have b: "\<nexists>r h'. RoleEdge_new h2 (WordObj w) Undefined (Str ''ARG0'') None Undefined = Inr (r, h')"
    using RoleEdge_new_succeeds_iff[of h2 "WordObj w" Undefined "Str ''ARG0''" None Undefined]
    by simp
  have c: "\<nexists>r h'. RoleEdge_new h2 Undefined (WordObj w) (Str ''ARG0'') None Undefined = Inr (r, h')"
    using RoleEdge_new_succeeds_iff[of h2 Undefined "WordObj w" "Str ''ARG0''" None Undefined]
    by simp
  from run a b c show ?thesis by blast
qed

section \<open>Entity accepts an empty morpheme list\<close>

text \<open>
  Claim C9 as stated fails: with \<^verbatim>\<open>morphemes = []\<close> the constructor returns an Entity
  of length 0.
\<close>

theorem Entity_new_empty_counterexample:
  "Entity_new heap_init (Str ''x'') (Str ''PS'') (Str ''PS_NAME'') [] Undefined =
     Inr (0, heap_init\<lparr>nextRef := 1, Entities := (Entities heap_init)(0 :=
       \<lparr> Entity_surface = Str ''x'', Entity_label = Str ''PS'', Entity_fineLabel = Str ''PS_NAME'',
         Entity_originalLabel = Undefined, Entity_items = [], Entity_corefGroup = Undefined \<rparr>)\<rparr>)"
  by (simp add: eval_defs2)

text \<open>
  Claim C9, as amended. No constructor of the module tests the length of its items. With
  \<^verbatim>\<open>morphemes = []\<close> the \<^verbatim>\<open>Entity\<close> constructor returns exactly when surface and
  fine label are strings, the label is a string or a \<^verbatim>\<open>CoarseEntityType\<close> and the
  original label is \<^verbatim>\<open>undefined\<close> or a string; the Entity has length 0 and no morpheme
  is touched.
\<close>

theorem Entity_new_empty_succeeds_iff:
  "(\<exists>e h'. Entity_new h surface label fineLabel [] originalLabel = Inr (e, h') \<and>
        length (Entity_items (Entities h' e)) = 0 \<and> Morphemes h' = Morphemes h) \<longleftrightarrow>
     (\<exists>s. surface = Str s) \<and> (\<exists>s. fineLabel = Str s) \<and>
     ((\<exists>s. label = Str s) \<or> (\<exists>n. label = EnumObj CoarseEntityType n)) \<and>
     (originalLabel = Undefined \<or> (\<exists>s. originalLabel = Str s))"
  unfolding Entity_new_def Let_def
  by simp

theorem Entity_new_empty_succeeds_iff_witness:
  "(\<exists>e h'. Entity_new heap_init (Str ''x'') (EnumObj CoarseEntityType ''PS'') (Str ''PS_NAME'') []
        (Str ''person'') = Inr (e, h') \<and>
        length (Entity_items (Entities h' e)) = 0 \<and> Morphemes h' = Morphemes heap_init) \<and>
   (\<nexists>e h'. Entity_new heap_init (Num 3) (Str ''PS'') (Str ''PS_NAME'') [] Undefined = Inr (e, h') \<and>
        length (Entity_items (Entities h' e)) = 0 \<and> Morphemes h' = Morphemes heap_init)"
  using Entity_new_empty_succeeds_iff[of heap_init "Str ''x''" "EnumObj CoarseEntityType ''PS''"
          "Str ''PS_NAME''" "Str ''person''"]
        Entity_new_empty_succeeds_iff[of heap_init "Num 3" "Str ''PS''" "Str ''PS_NAME''" Undefined]
  by simp

section \<open>Morpheme.wordSense is a plain property\<close>

text \<open>
  Claim C7 does not hold of the code: the constructor installs the write-once accessor
  under the name \<^verbatim>\<open>'wordsense'\<close>, so \<^verbatim>\<open>wordSense\<close> stays an ordinary property. A
  morpheme built from a native morpheme of word sense 1 holds 1; assigning 2 returns and
  the morpheme then holds 2.
\<close>

theorem Morpheme_wordSense_overwritten:
  "\<exists>m h1 h2.
     Morpheme_new heap_init (Str ''a'') (Str ''NNG'') Undefined
       (Some \<lparr> JMorpheme_getSurface = Str ''a'', JMorpheme_getTag_name = Str ''NNG'',
               JMorpheme_getOriginalTag = Undefined, JMorpheme_getWordSense = Num 1 \<rparr>) = Inr (m, h1) \<and>
     Morpheme_get_wordSense h1 m = Num 1 \<and>
     Morpheme_set_wordSense h1 m (Num 2) = Inr h2 \<and>
     Morpheme_get_wordSense h2 m = Num 2"
  by (simp add: eval_defs2)

section \<open>ImmutableArray.lastIndexOf searches from the front\<close>

text \<open>
  Claim C8 does not hold of the code: \<^verbatim>\<open>lastIndexOf\<close> calls \<^verbatim>\<open>indexOf\<close>. For the
  Entity built from the morphemes \<open>[m0, m1, m0]\<close>, \<^verbatim>\<open>lastIndexOf(m0)\<close> is 0, not 2.
  (For an element that occurs once, and for one that does not occur, the answer is the
  expected one.)
\<close>

theorem lastIndexOf_returns_first_index:
  "\<exists>m0 h1 m1 h2 e h3.
     Morpheme_new heap_init (Str ''a'') (Str ''NNG'') Undefined None = Inr (m0, h1) \<and>
     Morpheme_new h1 (Str ''b'') (Str ''NNG'') Undefined None = Inr (m1, h2) \<and>
     Entity_new h2 (Str ''aba'') (Str ''PS'') (Str ''PS_NAME'')
       [MorphemeObj m0, MorphemeObj m1, MorphemeObj m0] Undefined = Inr (e, h3) \<and>
     Entity_items (Entities h3 e) = [m0, m1, m0] \<and>
     ImmutableArray_lastIndexOf (Entity_items (Entities h3 e)) m0 = 0 \<and>
     ImmutableArray_lastIndexOf (Entity_items (Entities h3 e)) m1 = 1 \<and>
     ImmutableArray_lastIndexOf (Entity_items (Entities h3 e)) (Suc m1) = -1"
  by (simp add: eval_defs2 ImmutableArray_lastIndexOf_def Array_indexOf_def)


section \<open>Edges register themselves on their endpoint words\<close>


lemma Word_set_governorEdge_Inr:
  "Word_set_governorEdge h w v = Inr h1 \<Longrightarrow>
     h1 = h\<lparr>Words := (Words h)(w := (Words h w)\<lparr>Word_governorEdge := v\<rparr>)\<rparr>"
  by (auto simp: Word_set_governorEdge_def bind_eq_Inr dest: writeonlyonce_set_result)

lemma DepEdge_new_registers:
  assumes "DepEdge_new h governor dependent type depType originalLabel src dest label = Inr (e, h')"
  shows "(\<exists>d. DepEdge_dest (DepEdges h' e) = WordObj d \<and> Word_get_governorEdge h' d = DepEdgeObj e) \<and>
     (isDefined (DepEdge_src (DepEdges h' e)) \<longrightarrow>
        (\<exists>s. DepEdge_src (DepEdges h' e) = WordObj s \<and> e \<in> set (Word_dependentEdges (Words h' s))))"
proof -
  define obj where "obj = \<lparr> DepEdge_src = src, DepEdge_dest = dest, DepEdge_label = label,
     DepEdge_type = tagnameOf PhraseTag type, DepEdge_originalLabel = originalLabel \<rparr>"
  define h1 where "h1 = h\<lparr>nextRef := Suc (nextRef h), DepEdges := (DepEdges h)(nextRef h := obj)\<rparr>"
  from assms have chk: "DAGEdge_new src dest label = Inr ()"
    by (simp add: DepEdge_new_def)
  then obtain d where d: "dest = WordObj d" and s: "src = Undefined \<or> (\<exists>s. src = WordObj s)"
    by (auto simp: DAGEdge_new_Inr_iff)
  from assms d obtain h2 where
    e: "e = nextRef h" and
    set: "Word_set_governorEdge h1 d (DepEdgeObj e) = Inr h2" and
    h': "h' = (case src of
                 WordObj s \<Rightarrow>
                   h2\<lparr>Words := (Words h2)(s := (Words h2 s)
                        \<lparr>Word_dependentEdges := Word_dependentEdges (Words h2 s) @ [e]\<rparr>)\<rparr>
               | _ \<Rightarrow> h2)"
    by (auto simp: DepEdge_new_def Let_def bind_eq_Inr h1_def obj_def)
  note h2 = Word_set_governorEdge_Inr[OF set]
  show ?thesis
  proof (cases src)
    case Undefined
    with h' h2 d e show ?thesis
      by (simp add: h1_def obj_def Word_get_governorEdge_def writeonlyonce_get_def isDefined_def)
  next
    case (WordObj sw)
    with h' h2 d e show ?thesis
      by (simp add: h1_def obj_def Word_get_governorEdge_def writeonlyonce_get_def isDefined_def)
  qed (use s in auto)
qed

lemma RoleEdge_new_endpoints:
  "RoleEdge_new h predicate argument label modifiers originalLabel = Inr (r, h') \<Longrightarrow>
     \<exists>p a. predicate = WordObj p \<and> argument = WordObj a"
  by (auto simp: RoleEdge_new_def Let_def DAGEdge_new_Inr_iff isDefined_def)

lemma RoleEdge_new_registers:
  assumes "RoleEdge_new h predicate argument label modifiers originalLabel = Inr (r, h')"
  shows "(\<exists>d. RoleEdge_dest (RoleEdges h' r) = WordObj d \<and> r \<in> set (Word_predicateRoles (Words h' d))) \<and>
     (isDefined (RoleEdge_src (RoleEdges h' r)) \<longrightarrow>
        (\<exists>s. RoleEdge_src (RoleEdges h' r) = WordObj s \<and> r \<in> set (Word_argumentRoles (Words h' s))))"
proof -
  from RoleEdge_new_endpoints[OF assms] obtain p a where
    pa: "predicate = WordObj p" "argument = WordObj a"
    by blast
  from assms pa show ?thesis
    by (auto simp: RoleEdge_new_def Let_def)
qed

text \<open>
  Two calls that always raise: \<^verbatim>\<open>_getDepEdge\<close> passes an object without \<^verbatim>\<open>dest\<close>,
  and a \<^verbatim>\<open>SyntaxTree\<close> built without \<^verbatim>\<open>children\<close> hands \<^verbatim>\<open>undefined\<close> to
  \<^verbatim>\<open>typeCheck\<close>. The runs below therefore pass \<^verbatim>\<open>src\<close> and \<^verbatim>\<open>dest\<close> to \<^verbatim>\<open>DepEdge\<close>
  and an explicit list of children to \<^verbatim>\<open>SyntaxTree\<close>.
\<close>

lemma Sentence_getDepEdge_raises:
  "Sentence_getDepEdge h this e = Inl (TypeCheckError [''Word''] ''undefined'')"
  by (simp add: Sentence_getDepEdge_def DepEdge_new_def DAGEdge_new_def typeCheck_def)

lemma SyntaxTree_new_without_children_raises:
  "SyntaxTree_new h label terminal None originalLabel = Inl NullAccessError"
  by (simp add: SyntaxTree_new_def Tree_new_def)

text \<open>
  Claim C3. A \<^verbatim>\<open>DepEdge\<close> that gets constructed is the \<^verbatim>\<open>governorEdge\<close> of its
  \<^verbatim>\<open>dest\<close> and, when its \<^verbatim>\<open>src\<close> is defined, an element of the
  \<^verbatim>\<open>dependentEdges\<close> of its \<^verbatim>\<open>src\<close>; a \<^verbatim>\<open>RoleEdge\<close> that gets constructed is an
  element of the \<^verbatim>\<open>predicateRoles\<close> of its \<^verbatim>\<open>dest\<close> and, when its \<^verbatim>\<open>src\<close> is
  defined, of the \<^verbatim>\<open>argumentRoles\<close> of its \<^verbatim>\<open>src\<close>.
\<close>

theorem edges_register_on_their_words:
  "(DepEdge_new h governor dependent type depType originalLabel src dest label = Inr (e, h') \<longrightarrow>
     (\<exists>d. DepEdge_dest (DepEdges h' e) = WordObj d \<and> Word_get_governorEdge h' d = DepEdgeObj e) \<and>
     (isDefined (DepEdge_src (DepEdges h' e)) \<longrightarrow>
        (\<exists>s. DepEdge_src (DepEdges h' e) = WordObj s \<and>
             e \<in> set (Word_dependentEdges (Words h' s))))) \<and>
   (RoleEdge_new k predicate argument rlabel modifiers roriginalLabel = Inr (r, k') \<longrightarrow>
     (\<exists>d. RoleEdge_dest (RoleEdges k' r) = WordObj d \<and>
          r \<in> set (Word_predicateRoles (Words k' d))) \<and>
     (isDefined (RoleEdge_src (RoleEdges k' r)) \<longrightarrow>
        (\<exists>s. RoleEdge_src (RoleEdges k' r) = WordObj s \<and>
             r \<in> set (Word_argumentRoles (Words k' s)))))"
  using DepEdge_new_registers[of h governor dependent type depType originalLabel src dest label e h']
        RoleEdge_new_registers[of k predicate argument rlabel modifiers roriginalLabel r k']
  by blast

lemma two_words_edges:
  "\<exists>m0 h1 w0 h2 m1 h3 w1 h4 e h5 r h6.
     Morpheme_new heap_init (Str ''a'') (Str ''NNG'') Undefined None = Inr (m0, h1) \<and>
     Word_new h1 (Str ''a'') [MorphemeObj m0] = Inr (w0, h2) \<and>
     Morpheme_new h2 (Str ''b'') (Str ''VV'') Undefined None = Inr (m1, h3) \<and>
     Word_new h3 (Str ''b'') [MorphemeObj m1] = Inr (w1, h4) \<and>
     DepEdge_new h4 (WordObj w1) (WordObj w0) (Str ''NP'') (Str ''SBJ'') Undefined
       (WordObj w1) (WordObj w0) (Str ''SBJ'') = Inr (e, h5) \<and>
     RoleEdge_new h5 (WordObj w1) (WordObj w0) (Str ''ARG0'') None Undefined = Inr (r, h6) \<and>
     DepEdge_dest (DepEdges h5 e) = WordObj w0 \<and> DepEdge_src (DepEdges h5 e) = WordObj w1 \<and>
     RoleEdge_dest (RoleEdges h6 r) = WordObj w0 \<and> RoleEdge_src (RoleEdges h6 r) = WordObj w1"
  by (simp add: eval_defs2)

theorem edges_register_on_their_words_witness:
  "\<exists>m0 h1 w0 h2 m1 h3 w1 h4 e h5 r h6.
     Morpheme_new heap_init (Str ''a'') (Str ''NNG'') Undefined None = Inr (m0, h1) \<and>
     Word_new h1 (Str ''a'') [MorphemeObj m0] = Inr (w0, h2) \<and>
     Morpheme_new h2 (Str ''b'') (Str ''VV'') Undefined None = Inr (m1, h3) \<and>
     Word_new h3 (Str ''b'') [MorphemeObj m1] = Inr (w1, h4) \<and>
     DepEdge_new h4 (WordObj w1) (WordObj w0) (Str ''NP'') (Str ''SBJ'') Undefined
       (WordObj w1) (WordObj w0) (Str ''SBJ'') = Inr (e, h5) \<and>
     RoleEdge_new h5 (WordObj w1) (WordObj w0) (Str ''ARG0'') None Undefined = Inr (r, h6) \<and>
     Word_get_governorEdge h5 w0 = DepEdgeObj e \<and>
     e \<in> set (Word_dependentEdges (Words h5 w1)) \<and>
     r \<in> set (Word_predicateRoles (Words h6 w0)) \<and>
     r \<in> set (Word_argumentRoles (Words h6 w1))"
proof -
  from two_words_edges obtain m0 h1 w0 h2 m1 h3 w1 h4 e h5 r h6 where
    run: "Morpheme_new heap_init (Str ''a'') (Str ''NNG'') Undefined None = Inr (m0, h1)"
      "Word_new h1 (Str ''a'') [MorphemeObj m0] = Inr (w0, h2)"
      "Morpheme_new h2 (Str ''b'') (Str ''VV'') Undefined None = Inr (m1, h3)"
      "Word_new h3 (Str ''b'') [MorphemeObj m1] = Inr (w1, h4)" and
    dep: "DepEdge_new h4 (WordObj w1) (WordObj w0) (Str ''NP'') (Str ''SBJ'') Undefined
       (WordObj w1) (WordObj w0) (Str ''SBJ'') = Inr (e, h5)" and
    role: "RoleEdge_new h5 (WordObj w1) (WordObj w0) (Str ''ARG0'') None Undefined = Inr (r, h6)" and
    ends: "DepEdge_dest (DepEdges h5 e) = WordObj w0" "DepEdge_src (DepEdges h5 e) = WordObj w1"
      "RoleEdge_dest (RoleEdges h6 r) = WordObj w0" "RoleEdge_src (RoleEdges h6 r) = WordObj w1"
    by blast
  from edges_register_on_their_words[of h4 "WordObj w1" "WordObj w0" "Str ''NP''" "Str ''SBJ''"
      Undefined "WordObj w1" "WordObj w0" "Str ''SBJ''" e h5
      h5 "WordObj w1" "WordObj w0" "Str ''ARG0''" None Undefined r h6] dep role ends
  have "Word_get_governorEdge h5 w0 = DepEdgeObj e \<and>
     e \<in> set (Word_dependentEdges (Words h5 w1)) \<and>
     r \<in> set (Word_predicateRoles (Words h6 w0)) \<and>
     r \<in> set (Word_argumentRoles (Words h6 w1))"
    by (simp add: isDefined_def)
  with run dep role show ?thesis by blast
qed


section \<open>getTerminals returns the reachable terminals in sentence order\<close>


lemma foldl_append_concat:
  "foldl (\<lambda>acc child. acc @ f child) a xs = a @ concat (map f xs)"
  by (induction xs arbitrary: a) simp_all

lemma Tree_getTerminals_unfold:
  "Tree_getTerminals wid (TreeNode label terminal children) =
     sort_key wid (concat (map (Tree_getTerminals wid) children) @
                   (case terminal of None \<Rightarrow> [] | Some w \<Rightarrow> [w]))"
  by (simp add: foldl_append_concat Let_def split: option.splits)

lemma mset_Tree_getTerminals:
  "mset (Tree_getTerminals wid t) = mset (reachableTerminals t)"
proof (induction t)
  case (TreeNode label terminal children)
  have "mset (concat (map (Tree_getTerminals wid) children)) =
        mset (concat (map reachableTerminals children))"
    using TreeNode.IH by (induction children) simp_all
  then show ?case
    by (simp add: Tree_getTerminals_unfold del: Tree_getTerminals.simps split: option.splits)
qed

lemma length_reachableTerminals: "length (reachableTerminals t) = countTerminals t"
proof (induction t)
  case (TreeNode label terminal children)
  have "length (concat (map reachableTerminals children)) = sum_list (map countTerminals children)"
    using TreeNode.IH by (induction children) simp_all
  then show ?case
    by (simp split: option.splits)
qed

lemma sorted_Tree_getTerminals: "sorted (map wid (Tree_getTerminals wid t))"
  by (cases t) (simp add: Tree_getTerminals_unfold del: Tree_getTerminals.simps)

text \<open>
  Claim C4. For a tree whose reachable terminal Words carry pairwise distinct ids,
  \<^verbatim>\<open>getTerminals()\<close> returns exactly the reachable terminals (its own and those of all
  descendants, each once), in strictly ascending order of id, and as many of them as
  there are nodes with a terminal, whatever the shape of the tree.
\<close>

theorem Tree_getTerminals_sorted_reachable:
  assumes "distinct (map wid (reachableTerminals t))"
  shows "mset (Tree_getTerminals wid t) = mset (reachableTerminals t) \<and>
         set (Tree_getTerminals wid t) = set (reachableTerminals t) \<and>
         sorted_wrt (<) (map wid (Tree_getTerminals wid t)) \<and>
         length (Tree_getTerminals wid t) = countTerminals t"
proof -
  have m: "mset (Tree_getTerminals wid t) = mset (reachableTerminals t)"
    by (rule mset_Tree_getTerminals)
  then have "mset (map wid (Tree_getTerminals wid t)) = mset (map wid (reachableTerminals t))"
    by simp
  with assms have "distinct (map wid (Tree_getTerminals wid t))"
    by (metis mset_eq_imp_distinct_iff)
  then have s: "sorted_wrt (<) (map wid (Tree_getTerminals wid t))"
    using sorted_Tree_getTerminals[of wid t] by (simp add: strict_sorted_iff)
  from m have "set (Tree_getTerminals wid t) = set (reachableTerminals t)"
    by (rule mset_eq_setD)
  moreover from m have "length (Tree_getTerminals wid t) = countTerminals t"
    by (metis length_reachableTerminals size_mset)
  ultimately show ?thesis using m s by blast
qed

theorem Tree_getTerminals_sorted_reachable_witness:
  "distinct (map int (reachableTerminals
     (TreeNode (Str ''S'') None
        [TreeNode (Str ''VP'') (Some 2) [TreeNode (Str ''NP'') (Some 1) []],
         TreeNode (Str ''NP'') (Some 0) []]))) \<and>
   Tree_getTerminals int
     (TreeNode (Str ''S'') None
        [TreeNode (Str ''VP'') (Some 2) [TreeNode (Str ''NP'') (Some 1) []],
         TreeNode (Str ''NP'') (Some 0) []]) = [0, 1, 2] \<and>
   sorted_wrt (<) (map int (Tree_getTerminals int
     (TreeNode (Str ''S'') None
        [TreeNode (Str ''VP'') (Some 2) [TreeNode (Str ''NP'') (Some 1) []],
         TreeNode (Str ''NP'') (Some 0) []]))) \<and>
   length (Tree_getTerminals int
     (TreeNode (Str ''S'') None
        [TreeNode (Str ''VP'') (Some 2) [TreeNode (Str ''NP'') (Some 1) []],
         TreeNode (Str ''NP'') (Some 0) []])) = 3"
proof -
  let ?t = "TreeNode (Str ''S'') None
        [TreeNode (Str ''VP'') (Some 2) [TreeNode (Str ''NP'') (Some 1) []],
         TreeNode (Str ''NP'') (Some 0) []]"
  have d: "distinct (map int (reachableTerminals ?t))"
    by simp
  have v: "Tree_getTerminals int ?t = [0, 1, 2]"
    by simp
  from Tree_getTerminals_sorted_reachable[OF d] d v show ?thesis
    by simp
qed


section \<open>Sentence.nouns follows the inclusion and exclusion rule\<close>


lemma Array_findIndex_from_total:
  assumes "\<forall>x \<in> set xs. p x = Inr (q x)"
  shows "\<exists>r. Array_findIndex_from i p xs = Inr r \<and>
           ((r = -1 \<and> (\<forall>k < length xs. \<not> q (xs ! k))) \<or>
            (\<exists>k < length xs. r = i + int k \<and> q (xs ! k) \<and> (\<forall>j < k. \<not> q (xs ! j))))"
  using assms
proof (induction xs arbitrary: i)
  case Nil
  then show ?case by simp
next
  case (Cons x xs)
  show ?case
  proof (cases "q x")
    case True
    with Cons.prems show ?thesis by auto
  next
    case False
    from Cons.prems have "\<forall>x \<in> set xs. p x = Inr (q x)" by simp
    from Cons.IH[OF this, of "i + 1"] obtain r where
      r: "Array_findIndex_from (i + 1) p xs = Inr r" and
      c: "(r = -1 \<and> (\<forall>k < length xs. \<not> q (xs ! k))) \<or>
          (\<exists>k < length xs. r = i + 1 + int k \<and> q (xs ! k) \<and> (\<forall>j < k. \<not> q (xs ! j)))"
      by blast
    from Cons.prems False r have e: "Array_findIndex_from i p (x # xs) = Inr r"
      by simp
    from c show ?thesis
    proof
      assume "r = -1 \<and> (\<forall>k < length xs. \<not> q (xs ! k))"
      with False have "r = -1 \<and> (\<forall>k < length (x # xs). \<not> q ((x # xs) ! k))"
        by (auto simp: nth_Cons split: nat.splits)
      with e show ?thesis by blast
    next
      assume "\<exists>k < length xs. r = i + 1 + int k \<and> q (xs ! k) \<and> (\<forall>j < k. \<not> q (xs ! j))"
      then obtain k where k: "k < length xs" "r = i + 1 + int k" "q (xs ! k)"
        "\<forall>j < k. \<not> q (xs ! j)" by blast
      with False have "Suc k < length (x # xs) \<and> r = i + int (Suc k) \<and> q ((x # xs) ! Suc k) \<and>
          (\<forall>j < Suc k. \<not> q ((x # xs) ! j))"
        by (auto simp: nth_Cons split: nat.splits)
      with e show ?thesis by blast
    qed
  qed
qed

lemma lodash_baseFindIndex_right_total:
  assumes "\<forall>x \<in> set xs. p x = Inr (q x)"
  shows "\<exists>r. lodash_baseFindIndex_right i p xs = Inr r \<and>
           ((r = -1 \<and> (\<forall>k < length xs. \<not> q (xs ! k))) \<or>
            (\<exists>k < length xs. r = i - int k \<and> q (xs ! k) \<and> (\<forall>j < k. \<not> q (xs ! j))))"
  using assms
proof (induction xs arbitrary: i)
  case Nil
  then show ?case by simp
next
  case (Cons x xs)
  show ?case
  proof (cases "q x")
    case True
    with Cons.prems show ?thesis by auto
  next
    case False
    from Cons.prems have "\<forall>x \<in> set xs. p x = Inr (q x)" by simp
    from Cons.IH[OF this, of "i - 1"] obtain r where
      r: "lodash_baseFindIndex_right (i - 1) p xs = Inr r" and
      c: "(r = -1 \<and> (\<forall>k < length xs. \<not> q (xs ! k))) \<or>
          (\<exists>k < length xs. r = i - 1 - int k \<and> q (xs ! k) \<and> (\<forall>j < k. \<not> q (xs ! j)))"
      by blast
    from Cons.prems False r have e: "lodash_baseFindIndex_right i p (x # xs) = Inr r"
      by simp
    from c show ?thesis
    proof
      assume "r = -1 \<and> (\<forall>k < length xs. \<not> q (xs ! k))"
      with False have "r = -1 \<and> (\<forall>k < length (x # xs). \<not> q ((x # xs) ! k))"
        by (auto simp: nth_Cons split: nat.splits)
      with e show ?thesis by blast
    next
      assume "\<exists>k < length xs. r = i - 1 - int k \<and> q (xs ! k) \<and> (\<forall>j < k. \<not> q (xs ! j))"
      then obtain k where k: "k < length xs" "r = i - 1 - int k" "q (xs ! k)"
        "\<forall>j < k. \<not> q (xs ! j)" by blast
      with False have "Suc k < length (x # xs) \<and> r = i - int (Suc k) \<and> q ((x # xs) ! Suc k) \<and>
          (\<forall>j < Suc k. \<not> q ((x # xs) ! j))"
        by (auto simp: nth_Cons split: nat.splits)
      with e show ?thesis by blast
    qed
  qed
qed

lemma ImmutableArray_findIndex_total:
  assumes "\<forall>x \<in> set xs. p x = Inr (q x)"
  shows "\<exists>r. ImmutableArray_findIndex xs p = Inr r \<and>
           ((r = -1 \<and> (\<forall>k < length xs. \<not> q (xs ! k))) \<or>
            (\<exists>k < length xs. r = int k \<and> q (xs ! k) \<and> (\<forall>j < k. \<not> q (xs ! j))))"
  using Array_findIndex_from_total[OF assms, of 0]
  by (simp add: ImmutableArray_findIndex_def Array_findIndex_def)

lemma ImmutableArray_findLastIndex_total:
  assumes "\<forall>x \<in> set xs. p x = Inr (q x)"
  shows "\<exists>r. ImmutableArray_findLastIndex xs p = Inr r \<and>
           ((r = -1 \<and> (\<forall>k < length xs. \<not> q (xs ! k))) \<or>
            (\<exists>k < length xs. r = int k \<and> q (xs ! k) \<and> (\<forall>j < length xs. k < j \<longrightarrow> \<not> q (xs ! j))))"
proof -
  from assms have "\<forall>x \<in> set (rev xs). p x = Inr (q x)" by simp
  from lodash_baseFindIndex_right_total[OF this, of "int (length xs) - 1"] obtain r where
    r: "lodash_baseFindIndex_right (int (length xs) - 1) p (rev xs) = Inr r" and
    c: "(r = -1 \<and> (\<forall>k < length (rev xs). \<not> q (rev xs ! k))) \<or>
        (\<exists>k < length (rev xs). r = int (length xs) - 1 - int k \<and> q (rev xs ! k) \<and>
           (\<forall>j < k. \<not> q (rev xs ! j)))"
    by blast
  have e: "ImmutableArray_findLastIndex xs p = Inr r"
    using r by (simp add: ImmutableArray_findLastIndex_def lodash_findLastIndex_def)
  from c show ?thesis
  proof
    assume a: "r = -1 \<and> (\<forall>k < length (rev xs). \<not> q (rev xs ! k))"
    have "\<forall>k < length xs. \<not> q (xs ! k)"
    proof (intro allI impI)
      fix k assume k: "k < length xs"
      then have "length xs - 1 - k < length (rev xs)" by simp
      with a have "\<not> q (rev xs ! (length xs - 1 - k))" by blast
      with k show "\<not> q (xs ! k)" by (simp add: rev_nth)
    qed
    with a e show ?thesis by blast
  next
    assume "\<exists>k < length (rev xs). r = int (length xs) - 1 - int k \<and> q (rev xs ! k) \<and>
           (\<forall>j < k. \<not> q (rev xs ! j))"
    then obtain k where k: "k < length xs" "r = int (length xs) - 1 - int k" "q (rev xs ! k)"
      "\<forall>j < k. \<not> q (rev xs ! j)" by auto
    define n where "n = length xs - 1 - k"
    from k have n: "n < length xs" "r = int n" "q (xs ! n)"
      by (auto simp: n_def rev_nth Suc_diff_Suc)
    have "\<forall>j < length xs. n < j \<longrightarrow> \<not> q (xs ! j)"
    proof (intro allI impI)
      fix j assume j: "j < length xs" "n < j"
      then have "length xs - 1 - j < k" by (auto simp: n_def)
      with k have "\<not> q (rev xs ! (length xs - 1 - j))" by blast
      with j show "\<not> q (xs ! j)" by (simp add: rev_nth)
    qed
    with n e show ?thesis by blast
  qed
qed


lemma nouns_inclusion_valid:
  "Morpheme_tag_get J h m = Some t \<Longrightarrow> nouns_inclusion J h m = Inr (noun_inclusion_tag J t)"
  by (simp add: nouns_inclusion_def Morpheme_isNoun_def noun_inclusion_tag_def)

lemma nouns_exclusion_valid:
  "Morpheme_tag_get J h m = Some t \<Longrightarrow> nouns_exclusion J h m = Inr (noun_exclusion_tag J t)"
  by (simp add: nouns_exclusion_def noun_exclusion_tag_def)

lemma map_filter_all_Some:
  "\<forall>x \<in> set xs. f x \<noteq> None \<Longrightarrow> List.map_filter f xs = map (\<lambda>x. the (f x)) xs"
  by (induction xs) (auto simp: List.map_filter_simps)

lemma noun_rule_indices:
  assumes inc: "(inclusion = -1 \<and> (\<forall>k < length ts. \<not> noun_inclusion_tag J (ts ! k))) \<or>
      (\<exists>k < length ts. inclusion = int k \<and> noun_inclusion_tag J (ts ! k) \<and>
         (\<forall>j < k. \<not> noun_inclusion_tag J (ts ! j)))"
    and exc: "(exclusion = -1 \<and> (\<forall>k < length ts. \<not> noun_exclusion_tag J (ts ! k))) \<or>
      (\<exists>k < length ts. exclusion = int k \<and> noun_exclusion_tag J (ts ! k) \<and>
         (\<forall>j < length ts. k < j \<longrightarrow> \<not> noun_exclusion_tag J (ts ! j)))"
  shows "(inclusion \<noteq> -1 \<and> inclusion > exclusion) \<longleftrightarrow> noun_rule J ts"
proof
  assume a: "inclusion \<noteq> -1 \<and> inclusion > exclusion"
  with inc obtain i where i: "i < length ts" "inclusion = int i" "noun_inclusion_tag J (ts ! i)"
    "\<forall>j < i. \<not> noun_inclusion_tag J (ts ! j)" by blast
  have "\<forall>j < length ts. noun_exclusion_tag J (ts ! j) \<longrightarrow> j < i"
  proof (intro allI impI)
    fix j assume j: "j < length ts" "noun_exclusion_tag J (ts ! j)"
    with exc obtain k where k: "exclusion = int k"
      "\<forall>j < length ts. k < j \<longrightarrow> \<not> noun_exclusion_tag J (ts ! j)" by blast
    with j have "j \<le> k" by (meson not_le)
    with a i k show "j < i" by simp
  qed
  with i show "noun_rule J ts" unfolding noun_rule_def by blast
next
  assume "noun_rule J ts"
  then obtain i where i: "i < length ts" "noun_inclusion_tag J (ts ! i)"
    "\<forall>k < i. \<not> noun_inclusion_tag J (ts ! k)"
    "\<forall>j < length ts. noun_exclusion_tag J (ts ! j) \<longrightarrow> j < i"
    unfolding noun_rule_def by blast
  with inc obtain k where k: "k < length ts" "inclusion = int k" "noun_inclusion_tag J (ts ! k)"
    "\<forall>j < k. \<not> noun_inclusion_tag J (ts ! j)" by blast
  from i k have "k = i" by (meson nat_neq_iff)
  with k have inc1: "inclusion = int i" by simp
  from exc have "exclusion < int i"
  proof
    assume "exclusion = -1 \<and> (\<forall>k < length ts. \<not> noun_exclusion_tag J (ts ! k))"
    then show ?thesis by simp
  next
    assume "\<exists>k < length ts. exclusion = int k \<and> noun_exclusion_tag J (ts ! k) \<and>
         (\<forall>j < length ts. k < j \<longrightarrow> \<not> noun_exclusion_tag J (ts ! j))"
    then obtain e where "e < length ts" "exclusion = int e" "noun_exclusion_tag J (ts ! e)" by blast
    with i show ?thesis by simp
  qed
  with inc1 show "inclusion \<noteq> -1 \<and> inclusion > exclusion" by simp
qed

lemma Sentence_nouns_loop_filter:
  assumes "\<forall>w \<in> set ws. \<forall>m \<in> set (Word_items (Words h w)). Morpheme_tag_get J h m \<noteq> None"
  shows "Sentence_nouns_loop J h ws = Inr (filter (\<lambda>w. noun_rule J (Word_tags J h w)) ws)"
  using assms
proof (induction ws)
  case Nil
  show ?case by simp
next
  case (Cons w ws)
  let ?items = "Word_items (Words h w)"
  let ?tag = "\<lambda>m. the (Morpheme_tag_get J h m)"
  from Cons.prems have valid: "\<forall>m \<in> set ?items. Morpheme_tag_get J h m \<noteq> None"
    by simp
  then have tags: "Word_tags J h w = map ?tag ?items"
    by (simp add: Word_tags_def map_filter_all_Some)
  from valid have pi: "\<forall>m \<in> set ?items. nouns_inclusion J h m = Inr (noun_inclusion_tag J (?tag m))"
    by (auto simp: nouns_inclusion_valid)
  from valid have pe: "\<forall>m \<in> set ?items. nouns_exclusion J h m = Inr (noun_exclusion_tag J (?tag m))"
    by (auto simp: nouns_exclusion_valid)
  from ImmutableArray_findIndex_total[OF pi] obtain inclusion where
    fi: "ImmutableArray_findIndex ?items (nouns_inclusion J h) = Inr inclusion" and
    ci: "(inclusion = -1 \<and> (\<forall>k < length ?items. \<not> noun_inclusion_tag J (?tag (?items ! k)))) \<or>
         (\<exists>k < length ?items. inclusion = int k \<and> noun_inclusion_tag J (?tag (?items ! k)) \<and>
            (\<forall>j < k. \<not> noun_inclusion_tag J (?tag (?items ! j))))"
    by blast
  from ImmutableArray_findLastIndex_total[OF pe] obtain exclusion where
    fe: "ImmutableArray_findLastIndex ?items (nouns_exclusion J h) = Inr exclusion" and
    ce: "(exclusion = -1 \<and> (\<forall>k < length ?items. \<not> noun_exclusion_tag J (?tag (?items ! k)))) \<or>
         (\<exists>k < length ?items. exclusion = int k \<and> noun_exclusion_tag J (?tag (?items ! k)) \<and>
            (\<forall>j < length ?items. k < j \<longrightarrow> \<not> noun_exclusion_tag J (?tag (?items ! j))))"
    by blast
  have ci': "(inclusion = -1 \<and> (\<forall>k < length (map ?tag ?items). \<not> noun_inclusion_tag J (map ?tag ?items ! k))) \<or>
         (\<exists>k < length (map ?tag ?items). inclusion = int k \<and> noun_inclusion_tag J (map ?tag ?items ! k) \<and>
            (\<forall>j < k. \<not> noun_inclusion_tag J (map ?tag ?items ! j)))"
    using ci by (auto simp: nth_map)
  have ce': "(exclusion = -1 \<and> (\<forall>k < length (map ?tag ?items). \<not> noun_exclusion_tag J (map ?tag ?items ! k))) \<or>
         (\<exists>k < length (map ?tag ?items). exclusion = int k \<and> noun_exclusion_tag J (map ?tag ?items ! k) \<and>
            (\<forall>j < length (map ?tag ?items). k < j \<longrightarrow> \<not> noun_exclusion_tag J (map ?tag ?items ! j)))"
    using ce by (auto simp: nth_map)
  have rule: "(inclusion \<noteq> -1 \<and> inclusion > exclusion) \<longleftrightarrow> noun_rule J (Word_tags J h w)"
    unfolding tags by (rule noun_rule_indices[OF ci' ce'])
  from Cons.prems have "\<forall>w \<in> set ws. \<forall>m \<in> set (Word_items (Words h w)). Morpheme_tag_get J h m \<noteq> None"
    by simp
  from Cons.IH[OF this] fi fe rule show ?case
    by simp
qed

text \<open>
  Claim C6. When every morpheme of the sentence carries a tag of the catalog, the getter
  \<^verbatim>\<open>nouns\<close> returns, in order, the words of the sentence that satisfy the rule; so a
  word is in \<^verbatim>\<open>s.nouns\<close> iff it is a word of \<open>s\<close>, one of its morphemes is
  noun-category or tagged with prefix \<^verbatim>\<open>ETN\<close> or \<^verbatim>\<open>XSN\<close>, and the earliest such index
  is greater than the index of every morpheme tagged with prefix \<^verbatim>\<open>XSV\<close>, \<^verbatim>\<open>XSA\<close> or
  \<^verbatim>\<open>XSM\<close>.
\<close>

theorem Sentence_nouns_follow_rule:
  assumes "\<forall>w \<in> set (Sentence_items (Sentences h s)).
             \<forall>m \<in> set (Word_items (Words h w)). Morpheme_tag_get J h m \<noteq> None"
  shows "\<exists>result. Sentence_nouns J h s = Inr result \<and>
           result = filter (\<lambda>w. noun_rule J (Word_tags J h w)) (Sentence_items (Sentences h s)) \<and>
           (\<forall>w. w \<in> set result \<longleftrightarrow>
                w \<in> set (Sentence_items (Sentences h s)) \<and> noun_rule J (Word_tags J h w))"
  using Sentence_nouns_loop_filter[OF assms] by (simp add: Sentence_nouns_def)


lemmas eval_defs3 = eval_defs2
  Sentence_new_def Sentence_newWord_def Sentence_newMorpheme_def
  JSentence_example_def JMorpheme_example_def JEntity_example_def
  Sentence_set_syntaxTree_def replaceableifempty_set_def
  Sentence_getRole_def Sentence_getWord_def ImmutableArray_at_def
  Sentence_getEntity_def Sentence_getMorph_def
  Sentence_getCorefGroup_def Sentence_getCorefEntity_def
  Entity_equals_def ImmutableArray_equals_def Morpheme_equals_def
  Word_set_id_def

lemma heap_example_all:
  "\<exists>h. Sentence_new heap_init JSentence_example = Inr (6, h) \<and>
     Sentence_items (Sentences h 6) = [3, 5] \<and>
     Word_items (Words h 3) = [0, 1, 2] \<and>
     Word_items (Words h 5) = [4] \<and>
     Morpheme_tag (Morphemes h 0) = Str ''NNG'' \<and>
     Morpheme_tag (Morphemes h (Suc 0)) = Str ''XSV'' \<and>
     Morpheme_tag (Morphemes h 2) = Str ''EF'' \<and>
     Morpheme_tag (Morphemes h 4) = Str ''NNP'' \<and>
     Sentence_entities (Sentences h 6) = [8] \<and>
     Morpheme_entities (Morphemes h 4) = [8, 9] \<and>
     Word_entities h 5 = [8, 9] \<and>
     Entity_equals h 8 9"
  by (simp add: eval_defs3 Word_entities_def Word_entities_push_def)

lemma heap_example_facts:
  "Sentence_new heap_init JSentence_example = Inr (6, heap_example) \<and>
     Sentence_items (Sentences heap_example 6) = [3, 5] \<and>
     Word_items (Words heap_example 3) = [0, 1, 2] \<and>
     Word_items (Words heap_example 5) = [4] \<and>
     Morpheme_tag (Morphemes heap_example 0) = Str ''NNG'' \<and>
     Morpheme_tag (Morphemes heap_example (Suc 0)) = Str ''XSV'' \<and>
     Morpheme_tag (Morphemes heap_example 2) = Str ''EF'' \<and>
     Morpheme_tag (Morphemes heap_example 4) = Str ''NNP'' \<and>
     Sentence_entities (Sentences heap_example 6) = [8] \<and>
     Morpheme_entities (Morphemes heap_example 4) = [8, 9] \<and>
     Word_entities heap_example 5 = [8, 9] \<and>
     Entity_equals heap_example 8 9"
proof -
  from heap_example_all obtain h where
    h: "Sentence_new heap_init JSentence_example = Inr (6, h)" and
    rest: "Sentence_items (Sentences h 6) = [3, 5] \<and>
     Word_items (Words h 3) = [0, 1, 2] \<and>
     Word_items (Words h 5) = [4] \<and>
     Morpheme_tag (Morphemes h 0) = Str ''NNG'' \<and>
     Morpheme_tag (Morphemes h (Suc 0)) = Str ''XSV'' \<and>
     Morpheme_tag (Morphemes h 2) = Str ''EF'' \<and>
     Morpheme_tag (Morphemes h 4) = Str ''NNP'' \<and>
     Sentence_entities (Sentences h 6) = [8] \<and>
     Morpheme_entities (Morphemes h 4) = [8, 9] \<and>
     Word_entities h 5 = [8, 9] \<and>
     Entity_equals h 8 9"
    by blast
  from h have "heap_example = h" by (simp add: heap_example_def)
  with h rest show ?thesis by simp
qed

lemma heap_example_run: "Sentence_new heap_init JSentence_example = Inr (6, heap_example)"
  using heap_example_facts by simp

lemma heap_example_tags:
  "Sentence_items (Sentences heap_example 6) = [3, 5]"
  "Word_items (Words heap_example 3) = [0, 1, 2]"
  "Word_items (Words heap_example 5) = [4]"
  "Morpheme_tag (Morphemes heap_example 0) = Str ''NNG''"
  "Morpheme_tag (Morphemes heap_example 1) = Str ''XSV''"
  "Morpheme_tag (Morphemes heap_example (Suc 0)) = Str ''XSV''"
  "Morpheme_tag (Morphemes heap_example 2) = Str ''EF''"
  "Morpheme_tag (Morphemes heap_example 4) = Str ''NNP''"
  using heap_example_facts by simp_all

theorem Sentence_nouns_follow_rule_witness:
  "Sentence_new heap_init JSentence_example = Inr (6, heap_example) \<and>
   Sentence_items (Sentences heap_example 6) = [3, 5] \<and>
   Word_tags JavaPOS_example heap_example 3 = [''NNG'', ''XSV'', ''EF''] \<and>
   Word_tags JavaPOS_example heap_example 5 = [''NNP''] \<and>
   Sentence_nouns JavaPOS_example heap_example 6 = Inr [5] \<and>
   noun_rule JavaPOS_example (Word_tags JavaPOS_example heap_example 5) \<and>
   \<not> noun_rule JavaPOS_example (Word_tags JavaPOS_example heap_example 3)"
proof -
  have valid: "\<forall>w \<in> set (Sentence_items (Sentences heap_example 6)).
      \<forall>m \<in> set (Word_items (Words heap_example w)). Morpheme_tag_get JavaPOS_example heap_example m \<noteq> None"
    by (simp add: heap_example_tags Morpheme_tag_get_def POS_withName_def JavaPOS_example_def)
  have tags: "Word_tags JavaPOS_example heap_example 3 = [''NNG'', ''XSV'', ''EF'']"
    "Word_tags JavaPOS_example heap_example 5 = [''NNP'']"
    by (simp_all add: Word_tags_def heap_example_tags Morpheme_tag_get_def POS_withName_def
        JavaPOS_example_def List.map_filter_simps)
  have nouns: "Sentence_nouns JavaPOS_example heap_example 6 = Inr [5]"
    by (simp add: Sentence_nouns_def heap_example_tags ImmutableArray_findIndex_def
        Array_findIndex_def ImmutableArray_findLastIndex_def lodash_findLastIndex_def
        nouns_inclusion_def nouns_exclusion_def Morpheme_isNoun_def Morpheme_tag_get_def
        POS_withName_def JavaPOS_example_def)
  from Sentence_nouns_follow_rule[OF valid] nouns
  have m: "w \<in> set [5] \<longleftrightarrow> w \<in> set (Sentence_items (Sentences heap_example 6)) \<and>
      noun_rule JavaPOS_example (Word_tags JavaPOS_example heap_example w)" for w
    by simp
  from m[of 5] m[of 3]
  have "noun_rule JavaPOS_example (Word_tags JavaPOS_example heap_example 5) \<and>
      \<not> noun_rule JavaPOS_example (Word_tags JavaPOS_example heap_example 3)"
    by (simp add: heap_example_tags)
  with heap_example_run tags nouns show ?thesis
    by (simp add: heap_example_tags)
qed


section \<open>Reconstruction of coreference groups leaves a second Entity on each morpheme\<close>


lemma frame_refl [simp]: "frame h h"
  by (simp add: frame_def)



































section \<open>Second assignments to a write-once property\<close>





end
